theory Spec2Isabelle
  imports Complex_Main
begin

section \<open>The post-processing pipeline of sentry.tasks.post\_process\<close>

text \<open>
  A shallow embedding of \<^verbatim>\<open>src/sentry/tasks/post_process.py\<close>. Every function of
  the module takes the world (the redis lock store, the cache, the database tables, the
  metrics, the log, the task queue) and returns it updated, together with an outcome:
  the value it returns, or the exception it raises. The world at the point of a raise is
  kept, as Python keeps the mutations made before an exception.
\<close>

subsection \<open>Exceptions and outcomes\<close>

datatype exn =
    ConnectionError
  | DoesNotExist string
  | KeyError string
  | TypeError
  | PluginError string
  | OtherException string

datatype 'a outcome = Return 'a | Raise exn

subsection \<open>Data model\<close>

datatype GroupStatus = UNRESOLVED | RESOLVED | IGNORED

datatype owner = User nat | Team nat

record Group =
  g_id :: nat
  g_project_id :: nat
  platform :: "string option"
  status :: GroupStatus

record Project =
  p_id :: nat
  organization_id :: nat

record Event =
  project_id :: nat
  event_id :: string
  group_id :: nat
  event_size :: nat
  event_type :: string
  data :: "(string \<times> string) list"
  ev_group :: Group
  ev_project :: Project

record GroupSnooze =
  snooze_id :: nat
  until :: "nat option"
  count :: "nat option"

record ServiceHook =
  hook_id :: nat
  hook_projects :: "nat list"
  hook_organization_id :: nat
  events :: "string list"

datatype cache_val = HookList "(nat \<times> string list) list" | IntVal nat

datatype log_level = INFO | WARNING | ERROR

datatype log_val = LInt nat | LStr string | LExn exn

datatype log_entry = LogEntry string log_level string "(string \<times> log_val) list"

datatype metric =
    Incr string "(string \<times> string) list"
  | Timing string nat "(string \<times> string) list"

datatype instance_id = EventId string | GroupId nat

datatype task =
    ProcessServiceHook nat Event
  | ProcessResourceChange string string instance_id "Event option"

datatype signal = EventProcessed Project Group Event "string option"

text \<open>
  The world. \<open>now\<close> is what \<^verbatim>\<open>time.time()\<close> reads, in seconds. A redis key and a
  cache entry carry the time at which they expire. \<open>rng_pos\<close> counts the draws
  \<^verbatim>\<open>random.random()\<close> has made so far.
\<close>

record world =
  now :: nat
  redis_up :: bool
  redis_keys :: "string \<rightharpoonup> (string \<times> nat)"
  cache_store :: "string \<rightharpoonup> (cache_val \<times> nat)"
  logs :: "log_entry list"
  metrics :: "metric list"
  groups :: "nat \<rightharpoonup> Group"
  group_redirects :: "nat \<rightharpoonup> nat"
  projects :: "nat \<rightharpoonup> Project"
  organizations :: "nat list"
  snoozes :: "nat \<rightharpoonup> GroupSnooze"
  assignees :: "nat \<rightharpoonup> owner"
  service_hooks :: "ServiceHook list"
  tasks :: "task list"
  signals :: "signal list"
  scope_project :: "nat option"
  rng_pos :: nat

type_synonym 'a action = "world \<Rightarrow> 'a outcome \<times> world"

type_synonym futures = "nat list"

type_synonym callback = "Event \<Rightarrow> futures \<Rightarrow> unit action"

record post_process_args =
  pp_event :: Event
  pp_group :: Group
  pp_is_new :: bool
  pp_is_regresion :: bool
  pp_is_sample :: bool

record Plugin =
  slug :: string
  is_enabled :: "Project \<Rightarrow> bool"
  post_process :: "post_process_args \<Rightarrow> unit action"

text \<open>
  The settings, options and feature flags the module reads, and the collaborators it
  calls whose code is outside the module: the snooze's validity predicate
  (\<^verbatim>\<open>GroupSnooze.is_valid\<close>), the ownership rules
  (\<^verbatim>\<open>ProjectOwnership.get_autoassign_owner\<close>, which may raise), the rule engine
  (\<^verbatim>\<open>RuleProcessor(...).apply()\<close>, the list of callbacks with their futures) and
  the registered plugins. \<open>rand n\<close> is the value of the \<open>n\<close>-th draw of
  \<^verbatim>\<open>random.random()\<close>.
\<close>

record env =
  lock_cluster :: "string option"
  use_sampling :: bool
  sample_rate :: real
  rand :: "nat \<Rightarrow> real"
  has_servicehooks :: "Project \<Rightarrow> bool"
  has_event_hooks :: "nat \<Rightarrow> bool"
  snooze_is_valid :: "GroupSnooze \<Rightarrow> Group \<Rightarrow> world \<Rightarrow> bool"
  get_autoassign_owner :: "nat \<Rightarrow> (string \<times> string) list \<Rightarrow> world \<Rightarrow> owner option outcome"
  rule_apply :: "Event \<Rightarrow> bool \<Rightarrow> bool \<Rightarrow> bool \<Rightarrow> bool \<Rightarrow> world \<Rightarrow> (callback \<times> futures) list"
  plugin_registry :: "Plugin list"

subsection \<open>Sequencing\<close>

definition and_then :: "'a outcome \<times> world \<Rightarrow> ('a \<Rightarrow> 'b action) \<Rightarrow> 'b outcome \<times> world" where
  "and_then r f = (case r of (Return a, w) \<Rightarrow> f a w | (Raise e, w) \<Rightarrow> (Raise e, w))"

subsection \<open>Strings\<close>

text \<open>\<^verbatim>\<open>u'{}'.format(n)\<close> for a non-negative integer: its decimal digits.\<close>

fun str_of_nat :: "nat \<Rightarrow> string" where
  "str_of_nat n =
     (if n < 10 then [''0123456789'' ! n]
      else str_of_nat (n div 10) @ [''0123456789'' ! (n mod 10)])"

declare str_of_nat.simps [simp del]

text \<open>\<^verbatim>\<open>s.split(sep, 1)\<close>: at most one split, at the first occurrence of \<open>sep\<close>.\<close>

definition split1 :: "char \<Rightarrow> string \<Rightarrow> string list" where
  "split1 sep s =
     (if sep \<in> set s
      then [takeWhile (\<lambda>c. c \<noteq> sep) s, tl (dropWhile (\<lambda>c. c \<noteq> sep) s)]
      else [s])"

subsection \<open>The stores\<close>

text \<open>
  \<^verbatim>\<open>client.set(key, value, ex=seconds, nx=True)\<close> of the redis client: the key is
  written only when it is absent (an expired key is absent), with its expiry; the call
  returns whether it wrote. The client raises when it cannot reach the server.
\<close>

definition redis_set_nx :: "string \<Rightarrow> string \<Rightarrow> nat \<Rightarrow> bool action" where
  "redis_set_nx key v ex w =
     (if \<not> redis_up w then (Raise ConnectionError, w)
      else case redis_keys w key of
             Some (old, expires) \<Rightarrow>
               if now w < expires then (Return False, w)
               else (Return True, w\<lparr>redis_keys := (redis_keys w)(key \<mapsto> (v, now w + ex))\<rparr>)
           | None \<Rightarrow> (Return True, w\<lparr>redis_keys := (redis_keys w)(key \<mapsto> (v, now w + ex))\<rparr>))"

text \<open>\<^verbatim>\<open>cache.get(key)\<close> and \<^verbatim>\<open>cache.set(key, value, timeout)\<close>.\<close>

definition cache_get :: "string \<Rightarrow> world \<Rightarrow> cache_val option" where
  "cache_get key w =
     (case cache_store w key of
        None \<Rightarrow> None
      | Some (v, expires) \<Rightarrow> if now w < expires then Some v else None)"

definition cache_set :: "string \<Rightarrow> cache_val \<Rightarrow> nat \<Rightarrow> world \<Rightarrow> world" where
  "cache_set key v timeout w = w\<lparr>cache_store := (cache_store w)(key \<mapsto> (v, now w + timeout))\<rparr>"

text \<open>Python's truth value of what the cache holds.\<close>

fun truthy :: "cache_val \<Rightarrow> bool" where
  "truthy (IntVal n) = (n \<noteq> 0)"
| "truthy (HookList hs) = (hs \<noteq> [])"

definition metrics_incr :: "string \<Rightarrow> (string \<times> string) list \<Rightarrow> world \<Rightarrow> world" where
  "metrics_incr key tags w = w\<lparr>metrics := metrics w @ [Incr key tags]\<rparr>"

definition metrics_timing :: "string \<Rightarrow> nat \<Rightarrow> (string \<times> string) list \<Rightarrow> world \<Rightarrow> world" where
  "metrics_timing key v tags w = w\<lparr>metrics := metrics w @ [Timing key v tags]\<rparr>"

definition logger_info :: "string \<Rightarrow> (string \<times> log_val) list \<Rightarrow> world \<Rightarrow> world" where
  "logger_info msg extra w = w\<lparr>logs := logs w @ [LogEntry ''sentry'' INFO msg extra]\<rparr>"

definition delay :: "task \<Rightarrow> world \<Rightarrow> world" where
  "delay t w = w\<lparr>tasks := tasks w @ [t]\<rparr>"

subsection \<open>Hook registry: \_get\_service\_hooks, \_should\_send\_error\_created\_hooks\<close>

text \<open>
  \<^verbatim>\<open>_get_service_hooks(project_id)\<close>: the cached list of \<open>(id, events)\<close>, or on a
  miss the hooks of the project, read from the table and cached for 60 seconds. What
  the cache holds is returned as it is.
\<close>

definition get_service_hooks :: "nat \<Rightarrow> world \<Rightarrow> cache_val \<times> world" where
  "get_service_hooks pid w =
     (let cache_key = ''servicehooks:1:'' @ str_of_nat pid in
      case cache_get cache_key w of
        None \<Rightarrow>
          (let hooks = filter (\<lambda>h. pid \<in> set (hook_projects h)) (service_hooks w);
               result = HookList (map (\<lambda>h. (hook_id h, events h)) hooks)
           in (result, cache_set cache_key result 60 w))
      | Some result \<Rightarrow> (result, w))"

text \<open>
  \<^verbatim>\<open>_should_send_error_created_hooks(project)\<close>. With sampling on, one draw is
  compared with the sample rate and nothing else is consulted. Otherwise the cached
  decision is returned (its truth value), or computed from the organization's feature
  flag and the hooks subscribed to \<open>error.created\<close>, and cached for 60 seconds.
\<close>

definition should_send_error_created_hooks :: "env \<Rightarrow> Project \<Rightarrow> bool action" where
  "should_send_error_created_hooks env project w =
     (if use_sampling env then
        (let draw = rand env (rng_pos w);
             w1 = w\<lparr>rng_pos := rng_pos w + 1\<rparr>
         in if draw \<ge> sample_rate env then (Return False, w1) else (Return True, w1))
      else
        (let cache_key = ''servicehooks-error-created:1:'' @ str_of_nat (p_id project) in
         case cache_get cache_key w of
           Some result \<Rightarrow> (Return (truthy result), w)
         | None \<Rightarrow>
             if organization_id project \<notin> set (organizations w)
             then (Raise (DoesNotExist ''Organization''), w)
             else if \<not> has_event_hooks env (organization_id project)
             then (Return False, cache_set cache_key (IntVal 0) 60 w)
             else
               (let result =
                      (filter (\<lambda>h. hook_organization_id h = organization_id project
                                    \<and> ''error.created'' \<in> set (events h))
                         (service_hooks w) \<noteq> []);
                    cache_value = (if result then 1 else 0)
                in (Return result, cache_set cache_key (IntVal cache_value) 60 w))))"

subsection \<open>\_capture\_stats\<close>

definition capture_stats :: "Event \<Rightarrow> bool \<Rightarrow> world \<Rightarrow> world" where
  "capture_stats event is_new w =
     (case platform (ev_group event) of
        None \<Rightarrow> w
      | Some p \<Rightarrow>
          if p = [] then w
          else
            (let plat = split1 CHR ''_'' (split1 CHR ''-'' p ! 0) ! 0;
                 tags = [(''platform'', plat)];
                 w1 = (if is_new then metrics_incr ''events.unique'' tags w else w);
                 w2 = metrics_incr ''events.processed'' tags w1;
                 w3 = metrics_incr (''events.processed.'' @ plat) [] w2
             in metrics_timing ''events.size.data'' (event_size event) tags w3))"

subsection \<open>check\_event\_already\_post\_processed\<close>

definition dedup_key :: "Event \<Rightarrow> string" where
  "dedup_key event = ''pp:'' @ str_of_nat (project_id event) @ ''/'' @ event_id event"

text \<open>
  Returns \<open>None\<close> (Python's \<^verbatim>\<open>None\<close>) when no cluster is configured, and otherwise
  whether the \<^verbatim>\<open>set\<close> did not write. There is no handler around the call of the
  client.
\<close>

definition check_event_already_post_processed :: "env \<Rightarrow> Event \<Rightarrow> bool option action" where
  "check_event_already_post_processed env event w =
     (case lock_cluster env of
        None \<Rightarrow> (Return None, w)
      | Some cluster_key \<Rightarrow>
          and_then (redis_set_nx (dedup_key event) (str_of_nat (now w)) (60 * 60) w)
            (\<lambda>result w'. (Return (Some (\<not> result)), w')))"

subsection \<open>handle\_owner\_assignment\<close>

text \<open>\<^verbatim>\<open>GroupAssignee.objects.assign(group, owner)\<close>.\<close>

definition assign :: "Group \<Rightarrow> owner \<Rightarrow> world \<Rightarrow> world" where
  "assign grp ownr w = w\<lparr>assignees := (assignees w)(g_id grp \<mapsto> ownr)\<rparr>"

definition handle_owner_assignment :: "env \<Rightarrow> Project \<Rightarrow> Group \<Rightarrow> Event \<Rightarrow> unit action" where
  "handle_owner_assignment env project grp event w =
     (if assignees w (g_id grp) \<noteq> None then (Return (), w)
      else case get_autoassign_owner env (g_project_id grp) (data event) w of
             Raise e \<Rightarrow> (Raise e, w)
           | Return None \<Rightarrow> (Return (), w)
           | Return (Some ownr) \<Rightarrow> (Return (), assign grp ownr w))"

subsection \<open>process\_snoozes\<close>

text \<open>
  \<^verbatim>\<open>group.update(status=...)\<close> writes the row of the group, when there is one, and
  sets the attribute of the object in memory: the group is returned updated, next to
  the result.
\<close>

definition group_update_status :: "Group \<Rightarrow> GroupStatus \<Rightarrow> world \<Rightarrow> Group \<times> world" where
  "group_update_status grp st w =
     (grp\<lparr>status := st\<rparr>,
      case groups w (g_id grp) of
        None \<Rightarrow> w
      | Some row \<Rightarrow> w\<lparr>groups := (groups w)(g_id grp \<mapsto> row\<lparr>status := st\<rparr>)\<rparr>)"

definition process_snoozes :: "env \<Rightarrow> Group \<Rightarrow> world \<Rightarrow> (bool \<times> Group) \<times> world" where
  "process_snoozes env grp w =
     (case snoozes w (g_id grp) of
        None \<Rightarrow> ((False, grp), w)
      | Some snooze \<Rightarrow>
          if \<not> snooze_is_valid env snooze grp w then
            (let w1 = w\<lparr>snoozes := (snoozes w)(g_id grp := None)\<rparr>;
                 (grp', w2) = group_update_status grp UNRESOLVED w1
             in ((True, grp'), w2))
          else ((False, grp), w))"

subsection \<open>Collaborators outside the module\<close>

text \<open>
  Modelled from the spec: \<^verbatim>\<open>safe_execute\<close> of \<^verbatim>\<open>sentry.utils.safe\<close>, which is
  not among the sources. The spec's words: each callback is run in isolation, any
  exception is caught, logged with full context and never propagated; a designated
  expected error kind is treated as a normal, loggable failure. The function is called;
  when it raises, a line is logged (at \<open>INFO\<close> for an expected error, at \<open>ERROR\<close>
  otherwise) and the wrapper returns.
\<close>

definition safe_execute :: "string \<Rightarrow> (exn \<Rightarrow> bool) \<Rightarrow> unit action \<Rightarrow> unit action" where
  "safe_execute func_name expected_errors func w =
     (case func w of
        (Return r, w') \<Rightarrow> (Return r, w')
      | (Raise e, w') \<Rightarrow>
          (Return (),
           w'\<lparr>logs := logs w' @
                 [if expected_errors e
                  then LogEntry ''sentry.safe'' INFO (func_name @ ''.process_error_ignored'') [(''exception'', LExn e)]
                  else LogEntry ''sentry.safe'' ERROR (func_name @ ''.process_error'') [(''exception'', LExn e)]]\<rparr>))"

definition no_expected_errors :: "exn \<Rightarrow> bool" where
  "no_expected_errors e = False"

fun is_PluginError :: "exn \<Rightarrow> bool" where
  "is_PluginError (PluginError msg) = True"
| "is_PluginError e = False"

text \<open>
  Modelled from the spec: the plugin registry \<^verbatim>\<open>sentry.plugins.plugins\<close>, which is
  not among the sources. The spec's words: a registry mapping stable string identifiers
  to objects, whose lookup is a pure mapping read. A mapping read of a missing key
  raises \<^verbatim>\<open>KeyError\<close>. \<^verbatim>\<open>for_project\<close> yields the registered plugins enabled on the
  project.
\<close>

definition plugins_get :: "env \<Rightarrow> string \<Rightarrow> Plugin outcome" where
  "plugins_get env plugin_slug =
     (case find (\<lambda>p. slug p = plugin_slug) (plugin_registry env) of
        None \<Rightarrow> Raise (KeyError plugin_slug)
      | Some p \<Rightarrow> Return p)"

definition plugins_for_project :: "env \<Rightarrow> Project \<Rightarrow> Plugin list" where
  "plugins_for_project env project = filter (\<lambda>p. is_enabled p project) (plugin_registry env)"

text \<open>
  Modelled from the spec: \<^verbatim>\<open>get_group_with_redirect\<close> and
  \<^verbatim>\<open>Project.objects.get_from_cache\<close>, which are not among the sources. The spec's
  words: the issue and the project are re-fetched from the authoritative store;
  rebinding a deleted issue or project propagates out of the entry point.
\<close>

definition get_group_with_redirect :: "nat \<Rightarrow> world \<Rightarrow> (Group \<times> bool) outcome" where
  "get_group_with_redirect gid w =
     (case groups w gid of
        Some g \<Rightarrow> Return (g, False)
      | None \<Rightarrow>
          (case group_redirects w gid of
             None \<Rightarrow> Raise (DoesNotExist ''Group'')
           | Some gid' \<Rightarrow>
               (case groups w gid' of
                  None \<Rightarrow> Raise (DoesNotExist ''Group'')
                | Some g \<Rightarrow> Return (g, True))))"

definition project_get_from_cache :: "nat \<Rightarrow> world \<Rightarrow> Project outcome" where
  "project_get_from_cache pid w =
     (case projects w pid of None \<Rightarrow> Raise (DoesNotExist ''Project'') | Some p \<Rightarrow> Return p)"

subsection \<open>plugin\_post\_process\_group\<close>

definition plugin_post_process_group ::
    "env \<Rightarrow> string \<Rightarrow> Event \<Rightarrow> bool \<Rightarrow> bool \<Rightarrow> bool \<Rightarrow> unit action" where
  "plugin_post_process_group env plugin_slug event is_new is_regresion is_sample w =
     (let w1 = w\<lparr>scope_project := Some (project_id event)\<rparr> in
      case plugins_get env plugin_slug of
        Raise e \<Rightarrow> (Raise e, w1)
      | Return plugin \<Rightarrow>
          safe_execute ''post_process'' is_PluginError
            (post_process plugin
               \<lparr>pp_event = event, pp_group = ev_group event, pp_is_new = is_new,
                pp_is_regresion = is_regresion, pp_is_sample = is_sample\<rparr>)
            w1)"

subsection \<open>post\_process\_group\<close>

text \<open>
  The task decorator and the \<^verbatim>\<open>snuba.options_override\<close> block around the body
  change how the body is called and how queries are read, not what the body does; they
  are left out. Lines 157 to 172: the group and the project of the event are bound
  again. Wrapping the data of the event again (line 159) leaves the data as they are.
\<close>

definition rebind :: "Event \<Rightarrow> Event action" where
  "rebind event w =
     (case get_group_with_redirect (group_id event) w of
        Raise e \<Rightarrow> (Raise e, w)
      | Return (grp, redirected) \<Rightarrow>
          (let event1 = event\<lparr>ev_group := grp, group_id := g_id grp\<rparr>;
               pid = g_project_id (ev_group event1);
               w1 = w\<lparr>scope_project := Some pid\<rparr>
           in case project_get_from_cache pid w1 of
                Raise e \<Rightarrow> (Raise e, w1)
              | Return p \<Rightarrow> (Return (event1\<lparr>ev_project := p\<rparr>), w1)))"

text \<open>Lines 182 to 187: the loop over the callbacks the rule processor returned.\<close>

fun run_callbacks :: "Event \<Rightarrow> (callback \<times> futures) list \<Rightarrow> bool \<Rightarrow> bool action" where
  "run_callbacks event [] has_alert w = (Return has_alert, w)"
| "run_callbacks event ((cb, futs) # rest) has_alert w =
     and_then (safe_execute ''callback'' no_expected_errors (cb event futs) w)
       (\<lambda>r w'. run_callbacks event rest True w')"

text \<open>Lines 189 to 203: the service hooks.\<close>

definition allowed_events :: "bool \<Rightarrow> string set" where
  "allowed_events has_alert =
     (if has_alert then insert ''event.alert'' {''event.created''} else {''event.created''})"

fun dispatch_hooks :: "string set \<Rightarrow> Event \<Rightarrow> (nat \<times> string list) list \<Rightarrow> world \<Rightarrow> world" where
  "dispatch_hooks allowed event [] w = w"
| "dispatch_hooks allowed event ((servicehook_id, evs) # rest) w =
     dispatch_hooks allowed event rest
       (if list_ex (\<lambda>e. e \<in> allowed) evs
        then delay (ProcessServiceHook servicehook_id event) w
        else w)"

definition service_hooks_stage :: "env \<Rightarrow> Event \<Rightarrow> bool \<Rightarrow> unit action" where
  "service_hooks_stage env event has_alert w =
     (if has_servicehooks env (ev_project event) then
        (let allowed = allowed_events has_alert in
         if allowed \<noteq> {} then
           (case get_service_hooks (project_id event) w of
              (HookList hooks, w1) \<Rightarrow> (Return (), dispatch_hooks allowed event hooks w1)
            | (IntVal n, w1) \<Rightarrow> (Raise TypeError, w1))
         else (Return (), w))
      else (Return (), w))"

text \<open>Lines 205 to 217: the resource-change notifications.\<close>

definition resource_change_stage :: "env \<Rightarrow> Event \<Rightarrow> bool \<Rightarrow> unit action" where
  "resource_change_stage env event is_new w =
     and_then
       (if event_type event = ''error''
        then and_then (should_send_error_created_hooks env (ev_project event) w)
               (\<lambda>send w1.
                  (Return (),
                   if send
                   then delay (ProcessResourceChange ''created'' ''Error''
                                 (EventId (event_id event)) (Some event)) w1
                   else w1))
        else (Return (), w))
       (\<lambda>r w2.
          (Return (),
           if is_new
           then delay (ProcessResourceChange ''created'' ''Group'' (GroupId (group_id event)) None) w2
           else w2))"

text \<open>Lines 219 to 226: the plugins of the project.\<close>

fun run_plugins :: "env \<Rightarrow> Plugin list \<Rightarrow> Event \<Rightarrow> bool \<Rightarrow> bool \<Rightarrow> bool \<Rightarrow> unit action" where
  "run_plugins env [] event is_new is_regression is_sample w = (Return (), w)"
| "run_plugins env (plugin # rest) event is_new is_regression is_sample w =
     and_then (plugin_post_process_group env (slug plugin) event is_new is_regression is_sample w)
       (\<lambda>r w'. run_plugins env rest event is_new is_regression is_sample w')"

text \<open>Lines 228 to 234: the completion signal.\<close>

definition send_event_processed :: "Event \<Rightarrow> string option \<Rightarrow> world \<Rightarrow> world" where
  "send_event_processed event primary_hash w =
     w\<lparr>signals := signals w @ [EventProcessed (ev_project event) (ev_group event) event primary_hash]\<rparr>"

definition skipped_entry :: "Event \<Rightarrow> (string \<times> log_val) list" where
  "skipped_entry event =
     [(''project_id'', LInt (project_id event)), (''event_id'', LStr (event_id event)),
      (''reason'', LStr ''duplicate'')]"

text \<open>What runs once the event is claimed: lines 149 to 234.\<close>

definition process_claimed ::
    "env \<Rightarrow> Event \<Rightarrow> bool \<Rightarrow> bool \<Rightarrow> bool \<Rightarrow> bool \<Rightarrow> string option \<Rightarrow> unit action" where
  "process_claimed env event0 is_new is_regression is_sample is_new_group_environment primary_hash w0 =
     and_then (rebind event0 w0) (\<lambda>event1 w1.
       (let w2 = capture_stats event1 is_new w1;
            ((has_reappeared, grp), w3) = process_snoozes env (ev_group event1) w2;
            event = event1\<lparr>ev_group := grp\<rparr>
        in
        and_then (handle_owner_assignment env (ev_project event) (ev_group event) event w3) (\<lambda>r w4.
        and_then (run_callbacks event
                    (rule_apply env event is_new is_regression is_new_group_environment has_reappeared w4)
                    False w4) (\<lambda>has_alert w5.
        and_then (service_hooks_stage env event has_alert w5) (\<lambda>r w6.
        and_then (resource_change_stage env event is_new w6) (\<lambda>r w7.
        and_then (run_plugins env (plugins_for_project env (ev_project event)) event
                    is_new is_regression is_sample w7) (\<lambda>r w8.
          (Return (), send_event_processed event primary_hash w8))))))))"

definition post_process_group ::
    "env \<Rightarrow> Event \<Rightarrow> bool \<Rightarrow> bool \<Rightarrow> bool \<Rightarrow> bool \<Rightarrow> string option \<Rightarrow> unit action" where
  "post_process_group env event is_new is_regression is_sample is_new_group_environment primary_hash w =
     and_then (check_event_already_post_processed env event w) (\<lambda>already w'.
       if already = Some True
       then (Return (), logger_info ''post_process.skipped'' (skipped_entry event) w')
       else process_claimed env event is_new is_regression is_sample is_new_group_environment
              primary_hash w')"

subsection \<open>Isolated collaborators\<close>

text \<open>
  The environment in which every rule callback and every plugin hook is already wrapped
  by \<open>safe_execute\<close>, so that none of them ever raises: the one the pipeline is
  compared with to state that raising callbacks and plugins are isolated.
\<close>

definition isolated :: "env \<Rightarrow> env" where
  "isolated env =
     env\<lparr>rule_apply :=
           (\<lambda>event is_new is_regression is_new_group_environment has_reappeared w.
              map (\<lambda>(cb, futs).
                     (\<lambda>ev fs. safe_execute ''callback'' no_expected_errors (cb ev fs), futs))
                (rule_apply env event is_new is_regression is_new_group_environment has_reappeared w)),
         plugin_registry :=
           map (\<lambda>p. p\<lparr>post_process :=
                        (\<lambda>args. safe_execute ''post_process'' is_PluginError (post_process p args))\<rparr>)
             (plugin_registry env)\<rparr>"

subsection \<open>A scenario\<close>

text \<open>
  Project 42 of organization 7, with one resolved issue whose snooze ran out at 999, an
  \<open>error\<close> event \<open>abc\<close> of that issue, three service hooks, two rule callbacks (the
  first raises) and three plugins (the first two raise). The clock reads 1000.
\<close>

definition project42 :: Project where
  "project42 = \<lparr>p_id = 42, organization_id = 7\<rparr>"

definition group1 :: Group where
  "group1 = \<lparr>g_id = 1, g_project_id = 42, platform = Some ''python_django-rest'', status = RESOLVED\<rparr>"

definition event_abc :: Event where
  "event_abc =
     \<lparr>project_id = 42, event_id = ''abc'', group_id = 1, event_size = 512,
      event_type = ''error'', data = [], ev_group = group1, ev_project = project42\<rparr>"

definition snooze1 :: GroupSnooze where
  "snooze1 = \<lparr>snooze_id = 5, until = Some 999, count = None\<rparr>"

definition hooks0 :: "ServiceHook list" where
  "hooks0 =
     [\<lparr>hook_id = 1, hook_projects = [42], hook_organization_id = 7, events = [''event.created'']\<rparr>,
      \<lparr>hook_id = 2, hook_projects = [42], hook_organization_id = 7, events = [''event.alert'']\<rparr>,
      \<lparr>hook_id = 3, hook_projects = [43], hook_organization_id = 7, events = [''error.created'']\<rparr>]"

definition world0 :: world where
  "world0 =
     \<lparr>now = 1000, redis_up = True, redis_keys = Map.empty, cache_store = Map.empty,
      logs = [], metrics = [], groups = [1 \<mapsto> group1], group_redirects = Map.empty,
      projects = [42 \<mapsto> project42], organizations = [7], snoozes = [1 \<mapsto> snooze1],
      assignees = Map.empty, service_hooks = hooks0, tasks = [], signals = [],
      scope_project = None, rng_pos = 0\<rparr>"

definition cb_raise :: callback where
  "cb_raise ev futs w = (Raise (OtherException ''boom''), w)"

definition cb_ok :: callback where
  "cb_ok ev futs w = (Return (), metrics_incr ''alert.sent'' [] w)"

definition plugin_bad :: Plugin where
  "plugin_bad =
     \<lparr>slug = ''bad'', is_enabled = (\<lambda>p. True),
      post_process = (\<lambda>args w. (Raise (PluginError ''misconfigured''), w))\<rparr>"

definition plugin_worse :: Plugin where
  "plugin_worse =
     \<lparr>slug = ''worse'', is_enabled = (\<lambda>p. True),
      post_process = (\<lambda>args w. (Raise (OtherException ''crash''), w))\<rparr>"

definition plugin_ok :: Plugin where
  "plugin_ok =
     \<lparr>slug = ''ok'', is_enabled = (\<lambda>p. True),
      post_process = (\<lambda>args w. (Return (), metrics_incr ''plugin.ran'' [] w))\<rparr>"

definition until_valid :: "GroupSnooze \<Rightarrow> Group \<Rightarrow> world \<Rightarrow> bool" where
  "until_valid snooze grp w = (case until snooze of None \<Rightarrow> True | Some t \<Rightarrow> now w < t)"

definition env0 :: env where
  "env0 =
     \<lparr>lock_cluster = Some ''default'', use_sampling = False, sample_rate = 0,
      rand = (\<lambda>n. 1 / 2), has_servicehooks = (\<lambda>p. True), has_event_hooks = (\<lambda>org. True),
      snooze_is_valid = until_valid,
      get_autoassign_owner = (\<lambda>pid d w. Return (Some (User 3))),
      rule_apply =
        (\<lambda>ev is_new is_regression is_new_group_environment has_reappeared w.
           if has_reappeared then [(cb_raise, [1]), (cb_ok, [2])] else []),
      plugin_registry = [plugin_bad, plugin_worse, plugin_ok]\<rparr>"

text \<open>
  What the scenario's first run leaves: the event as rebound, and the world after every
  stage, the lock store apart.
\<close>

definition event_done :: Event where
  "event_done = event_abc\<lparr>ev_group := group1\<lparr>status := UNRESOLVED\<rparr>\<rparr>"

definition world_done :: world where
  "world_done =
     \<lparr>now = 1000, redis_up = True, redis_keys = Map.empty,
      cache_store =
        [''servicehooks:1:42'' \<mapsto> (HookList [(1, [''event.created'']), (2, [''event.alert''])], 1060),
         ''servicehooks-error-created:1:42'' \<mapsto> (IntVal 1, 1060)],
      logs =
        [LogEntry ''sentry.safe'' ERROR ''callback.process_error''
           [(''exception'', LExn (OtherException ''boom''))],
         LogEntry ''sentry.safe'' INFO ''post_process.process_error_ignored''
           [(''exception'', LExn (PluginError ''misconfigured''))],
         LogEntry ''sentry.safe'' ERROR ''post_process.process_error''
           [(''exception'', LExn (OtherException ''crash''))]],
      metrics =
        [Incr ''events.unique'' [(''platform'', ''python'')],
         Incr ''events.processed'' [(''platform'', ''python'')],
         Incr ''events.processed.python'' [],
         Timing ''events.size.data'' 512 [(''platform'', ''python'')],
         Incr ''alert.sent'' [], Incr ''plugin.ran'' []],
      groups = [1 \<mapsto> group1\<lparr>status := UNRESOLVED\<rparr>], group_redirects = Map.empty,
      projects = [42 \<mapsto> project42], organizations = [7], snoozes = Map.empty,
      assignees = [1 \<mapsto> User 3], service_hooks = hooks0,
      tasks =
        [ProcessServiceHook 1 event_done, ProcessServiceHook 2 event_done,
         ProcessResourceChange ''created'' ''Error'' (EventId ''abc'') (Some event_done),
         ProcessResourceChange ''created'' ''Group'' (GroupId 1) None],
      signals = [EventProcessed project42 (group1\<lparr>status := UNRESOLVED\<rparr>) event_done None],
      scope_project = Some 42, rng_pos = 0\<rparr>"

definition world_first :: world where
  "world_first = world_done\<lparr>redis_keys := [dedup_key event_abc \<mapsto> (str_of_nat 1000, 4600)]\<rparr>"

text \<open>
  The scenario with ownership rules that raise, and the world its first run leaves when
  the ownership stage raises.
\<close>

definition env_rules_raise :: env where
  "env_rules_raise = env0\<lparr>get_autoassign_owner := (\<lambda>pid d w. Raise (OtherException ''rules''))\<rparr>"

definition world_failed :: world where
  "world_failed =
     world0
       \<lparr>redis_keys := [dedup_key event_abc \<mapsto> (str_of_nat 1000, 4600)],
        metrics :=
          [Incr ''events.unique'' [(''platform'', ''python'')],
           Incr ''events.processed'' [(''platform'', ''python'')],
           Incr ''events.processed.python'' [],
           Timing ''events.size.data'' 512 [(''platform'', ''python'')]],
        groups := [1 \<mapsto> group1\<lparr>status := UNRESOLVED\<rparr>],
        snoozes := Map.empty,
        scope_project := Some 42\<rparr>"

section \<open>Properties\<close>

subsection \<open>Auxiliary facts\<close>

lemma split1_first: "split1 sep s ! 0 = takeWhile (\<lambda>c. c \<noteq> sep) s"
proof (cases "sep \<in> set s")
  case True
  then show ?thesis by (simp add: split1_def)
next
  case False
  then have h: "takeWhile (\<lambda>c. c \<noteq> sep) s = s"
    by (subst takeWhile_eq_all_conv) auto
  from False have "split1 sep s = [s]" by (simp add: split1_def)
  then show ?thesis by (simp only: h nth_Cons_0)
qed

lemma str_of_nat_42: "str_of_nat 42 = ''42''"
  by (simp add: str_of_nat.simps)

lemma safe_execute_eq:
  "safe_execute name expected func w = (Return (), snd (safe_execute name expected func w))"
  by (cases "func w"; cases "fst (func w)") (simp_all add: safe_execute_def)

lemma safe_execute_idem:
  "safe_execute name expected (safe_execute name expected func) w = safe_execute name expected func w"
  by (cases "func w"; cases "fst (func w)") (simp_all add: safe_execute_def)

lemma run_callbacks_fold:
  "run_callbacks event cbs has_alert w =
     (Return (has_alert \<or> cbs \<noteq> []),
      foldl (\<lambda>w (cb, futs). snd (safe_execute ''callback'' no_expected_errors (cb event futs) w)) w cbs)"
proof (induction cbs arbitrary: has_alert w)
  case Nil
  show ?case by simp
next
  case (Cons c cbs)
  obtain cb futs where c: "c = (cb, futs)" by (cases c)
  have "run_callbacks event (c # cbs) has_alert w =
        run_callbacks event cbs True (snd (safe_execute ''callback'' no_expected_errors (cb event futs) w))"
    unfolding c by (subst run_callbacks.simps, subst safe_execute_eq) (simp add: and_then_def)
  then show ?case by (simp add: Cons.IH c)
qed

lemma find_slug_registered:
  "p \<in> set ps \<Longrightarrow> \<exists>q. find (\<lambda>x. slug x = slug p) ps = Some q \<and> slug q = slug p \<and> q \<in> set ps"
  by (induction ps) auto

lemma find_slug_distinct:
  "distinct (map slug ps) \<Longrightarrow> p \<in> set ps \<Longrightarrow> find (\<lambda>x. slug x = slug p) ps = Some p"
  by (induction ps) force+

lemma plugin_post_process_group_registered:
  assumes "plugin_slug \<in> slug ` set (plugin_registry env)"
  shows "fst (plugin_post_process_group env plugin_slug event is_new is_regresion is_sample w) = Return ()"
proof -
  from assms obtain p where "p \<in> set (plugin_registry env)" "slug p = plugin_slug" by auto
  with find_slug_registered [of p "plugin_registry env"]
  obtain q where "find (\<lambda>x. slug x = plugin_slug) (plugin_registry env) = Some q" by auto
  then show ?thesis
    by (simp add: plugin_post_process_group_def plugins_get_def Let_def)
       (subst safe_execute_eq, simp)
qed

lemma dispatch_hooks_tasks:
  "dispatch_hooks allowed event hooks w =
     w\<lparr>tasks := tasks w @ map (\<lambda>(i, evs). ProcessServiceHook i event)
                          (filter (\<lambda>(i, evs). set evs \<inter> allowed \<noteq> {}) hooks)\<rparr>"
proof (induction hooks arbitrary: w)
  case Nil
  show ?case by simp
next
  case (Cons h hooks)
  obtain i evs where h: "h = (i, evs)" by (cases h)
  have ex: "list_ex (\<lambda>e. e \<in> allowed) evs = (set evs \<inter> allowed \<noteq> {})"
    by (auto simp: list_ex_iff)
  show ?case
    unfolding h by (simp add: Cons.IH ex delay_def)
qed

text \<open>The scenario, evaluated.\<close>

lemma rebind_scenario:
  "rebind event_abc (world0\<lparr>redis_up := u, redis_keys := k\<rparr>) =
     (Return event_abc, world0\<lparr>redis_up := u, redis_keys := k, scope_project := Some 42\<rparr>)"
  by (simp add: rebind_def get_group_with_redirect_def project_get_from_cache_def world0_def
      event_abc_def group1_def project42_def)

lemma process_claimed_scenario:
  "process_claimed (env0\<lparr>lock_cluster := l\<rparr>) event_abc True False False False None
     (world0\<lparr>redis_up := u, redis_keys := k\<rparr>) =
   (Return (), world_done\<lparr>redis_up := u, redis_keys := k\<rparr>)"
  apply (simp add: process_claimed_def rebind_scenario and_then_def)
  apply (simp add: capture_stats_def split1_first metrics_incr_def metrics_timing_def
      event_abc_def group1_def project42_def world0_def env0_def until_valid_def snooze1_def
      process_snoozes_def group_update_status_def handle_owner_assignment_def assign_def
      cb_raise_def cb_ok_def safe_execute_def no_expected_errors_def and_then_def
      service_hooks_stage_def allowed_events_def get_service_hooks_def cache_get_def cache_set_def
      str_of_nat_42 hooks0_def delay_def resource_change_stage_def
      should_send_error_created_hooks_def plugins_for_project_def plugin_bad_def plugin_worse_def
      plugin_ok_def plugin_post_process_group_def plugins_get_def send_event_processed_def
      world_done_def event_done_def Let_def)
  done

lemma first_run_scenario:
  "post_process_group env0 event_abc True False False False None world0 = (Return (), world_first)"
proof -
  have e: "env0\<lparr>lock_cluster := Some ''default''\<rparr> = env0"
    by (simp add: env0_def)
  have c: "check_event_already_post_processed env0 event_abc world0 =
        (Return (Some False),
         world0\<lparr>redis_up := True, redis_keys := [dedup_key event_abc \<mapsto> (str_of_nat 1000, 4600)]\<rparr>)"
    by (simp add: check_event_already_post_processed_def redis_set_nx_def and_then_def env0_def
        world0_def)
  show ?thesis
    using process_claimed_scenario [where l = "Some ''default''" and u = True
        and k = "[dedup_key event_abc \<mapsto> (str_of_nat 1000, 4600)]"]
    by (simp add: post_process_group_def c and_then_def e world_first_def world_done_def)
qed

lemma second_run_scenario:
  "process_claimed (env0\<lparr>lock_cluster := l\<rparr>) event_abc True False False False None
     (world_done\<lparr>now := 1010\<rparr>) =
   (Return (),
    world_done
      \<lparr>now := 1010,
       logs := logs world_done @
         [LogEntry ''sentry.safe'' INFO ''post_process.process_error_ignored''
            [(''exception'', LExn (PluginError ''misconfigured''))],
          LogEntry ''sentry.safe'' ERROR ''post_process.process_error''
            [(''exception'', LExn (OtherException ''crash''))]],
       metrics := metrics world_done @
         [Incr ''events.unique'' [(''platform'', ''python'')],
          Incr ''events.processed'' [(''platform'', ''python'')],
          Incr ''events.processed.python'' [],
          Timing ''events.size.data'' 512 [(''platform'', ''python'')],
          Incr ''plugin.ran'' []],
       tasks := tasks world_done @
         [ProcessServiceHook 1 event_done,
          ProcessResourceChange ''created'' ''Error'' (EventId ''abc'') (Some event_done),
          ProcessResourceChange ''created'' ''Group'' (GroupId 1) None],
       signals := signals world_done @
         [EventProcessed project42 (group1\<lparr>status := UNRESOLVED\<rparr>) event_done None]\<rparr>)"
  by (simp add: process_claimed_def rebind_def get_group_with_redirect_def
      project_get_from_cache_def and_then_def
      capture_stats_def split1_first metrics_incr_def metrics_timing_def
      event_abc_def group1_def project42_def env0_def
      process_snoozes_def handle_owner_assignment_def
      safe_execute_def
      service_hooks_stage_def allowed_events_def get_service_hooks_def cache_get_def
      str_of_nat_42 delay_def resource_change_stage_def
      should_send_error_created_hooks_def plugins_for_project_def plugin_bad_def plugin_worse_def
      plugin_ok_def plugin_post_process_group_def plugins_get_def send_event_processed_def
      world_done_def event_done_def Let_def)

lemma failed_run_scenario:
  "post_process_group env_rules_raise event_abc True False False False None world0
     = (Raise (OtherException ''rules''), world_failed)"
proof -
  have c: "check_event_already_post_processed env_rules_raise event_abc world0 =
        (Return (Some False),
         world0\<lparr>redis_up := True, redis_keys := [dedup_key event_abc \<mapsto> (str_of_nat 1000, 4600)]\<rparr>)"
    by (simp add: check_event_already_post_processed_def redis_set_nx_def and_then_def env0_def
        env_rules_raise_def world0_def)
  show ?thesis
    apply (simp add: post_process_group_def c and_then_def process_claimed_def rebind_scenario)
    apply (simp add: capture_stats_def split1_first metrics_incr_def metrics_timing_def
      event_abc_def group1_def project42_def world0_def env0_def env_rules_raise_def
      until_valid_def snooze1_def
      process_snoozes_def group_update_status_def handle_owner_assignment_def
      world_failed_def Let_def)
    done
qed

lemma get_service_hooks_scenario:
  "get_service_hooks (project_id event_abc) world0 =
     (HookList [(1, [''event.created'']), (2, [''event.alert''])],
      world0\<lparr>cache_store := [''servicehooks:1:42'' \<mapsto>
                 (HookList [(1, [''event.created'']), (2, [''event.alert''])], 1060)]\<rparr>)"
  by (simp add: get_service_hooks_def cache_get_def cache_set_def event_abc_def str_of_nat_42
      world0_def hooks0_def Let_def)

lemma registry0_slugs: "slug ` set (plugin_registry env0) = {''bad'', ''worse'', ''ok''}"
  by (simp add: env0_def plugin_bad_def plugin_worse_def plugin_ok_def)

text \<open>The pipeline does not tell an environment from its isolated one.\<close>

lemma run_callbacks_isolated:
  "run_callbacks event
     (map (\<lambda>(cb, futs). (\<lambda>ev fs. safe_execute ''callback'' no_expected_errors (cb ev fs), futs)) cbs)
     has_alert
   = run_callbacks event cbs has_alert"
proof (induction cbs arbitrary: has_alert)
  case Nil
  show ?case by simp
next
  case (Cons c cbs)
  obtain cb futs where c: "c = (cb, futs)" by (cases c)
  show ?case
    unfolding c by (rule ext) (simp add: safe_execute_idem Cons.IH)
qed

lemma find_slug_map:
  "find (\<lambda>p. slug p = s) (map (\<lambda>p. p\<lparr>post_process := f p\<rparr>) ps)
     = map_option (\<lambda>p. p\<lparr>post_process := f p\<rparr>) (find (\<lambda>p. slug p = s) ps)"
  by (induction ps) simp_all

lemma plugin_post_process_group_isolated:
  "plugin_post_process_group (isolated env) plugin_slug event is_new is_regresion is_sample w
     = plugin_post_process_group env plugin_slug event is_new is_regresion is_sample w"
  by (cases "find (\<lambda>p. slug p = plugin_slug) (plugin_registry env)")
     (simp_all add: plugin_post_process_group_def plugins_get_def isolated_def find_slug_map
        safe_execute_idem Let_def)

lemma plugin_post_process_group_isolated_fun:
  "plugin_post_process_group (isolated env) plugin_slug event is_new is_regresion is_sample
     = plugin_post_process_group env plugin_slug event is_new is_regresion is_sample"
  by (rule ext) (rule plugin_post_process_group_isolated)

lemma run_plugins_isolated:
  "run_plugins (isolated env) (map (\<lambda>p. p\<lparr>post_process := f p\<rparr>) ps) event is_new is_regression
     is_sample
   = run_plugins env ps event is_new is_regression is_sample"
proof (induction ps)
  case Nil
  show ?case by (rule ext) simp
next
  case (Cons p ps)
  show ?case
    by (rule ext) (simp add: plugin_post_process_group_isolated_fun Cons.IH)
qed

lemma plugins_for_project_isolated:
  "plugins_for_project (isolated env) project
     = map (\<lambda>p. p\<lparr>post_process :=
                     (\<lambda>args. safe_execute ''post_process'' is_PluginError (post_process p args))\<rparr>)
         (plugins_for_project env project)"
  by (simp add: plugins_for_project_def isolated_def filter_map comp_def)

lemma isolated_fields:
  "lock_cluster (isolated env) = lock_cluster env"
  "use_sampling (isolated env) = use_sampling env"
  "sample_rate (isolated env) = sample_rate env"
  "rand (isolated env) = rand env"
  "has_servicehooks (isolated env) = has_servicehooks env"
  "has_event_hooks (isolated env) = has_event_hooks env"
  "snooze_is_valid (isolated env) = snooze_is_valid env"
  "get_autoassign_owner (isolated env) = get_autoassign_owner env"
  by (simp_all add: isolated_def)

lemma other_stages_isolated:
  "process_snoozes (isolated env) grp w = process_snoozes env grp w"
  "handle_owner_assignment (isolated env) project grp event w
     = handle_owner_assignment env project grp event w"
  "service_hooks_stage (isolated env) event has_alert w = service_hooks_stage env event has_alert w"
  "resource_change_stage (isolated env) event is_new w = resource_change_stage env event is_new w"
  "check_event_already_post_processed (isolated env) event w
     = check_event_already_post_processed env event w"
  unfolding process_snoozes_def handle_owner_assignment_def service_hooks_stage_def
      resource_change_stage_def should_send_error_created_hooks_def
      check_event_already_post_processed_def isolated_fields
  by (rule refl)+

lemma rule_apply_isolated:
  "rule_apply (isolated env) event a b c d w
     = map (\<lambda>(cb, futs). (\<lambda>ev fs. safe_execute ''callback'' no_expected_errors (cb ev fs), futs))
         (rule_apply env event a b c d w)"
  by (simp add: isolated_def)

lemma process_claimed_isolated:
  "process_claimed (isolated env) event is_new is_regression is_sample is_new_group_environment
     primary_hash w
   = process_claimed env event is_new is_regression is_sample is_new_group_environment
       primary_hash w"
  by (simp add: process_claimed_def other_stages_isolated rule_apply_isolated
      run_callbacks_isolated plugins_for_project_isolated run_plugins_isolated
      cong: if_cong)

lemma process_claimed_isolated_fun:
  "process_claimed (isolated env) event is_new is_regression is_sample is_new_group_environment
     primary_hash
   = process_claimed env event is_new is_regression is_sample is_new_group_environment
       primary_hash"
  by (rule ext) (rule process_claimed_isolated)

lemma run_plugins_returns:
  "set ps \<subseteq> set (plugin_registry env) \<Longrightarrow>
   fst (run_plugins env ps event is_new is_regression is_sample w) = Return ()"
proof (induction ps arbitrary: w)
  case Nil
  show ?case by simp
next
  case (Cons p ps)
  then have "slug p \<in> slug ` set (plugin_registry env)" by auto
  from plugin_post_process_group_registered [OF this]
  obtain w' where "plugin_post_process_group env (slug p) event is_new is_regression is_sample w
          = (Return (), w')"
    by (metis prod.collapse)
  with Cons show ?case
    by (simp add: and_then_def)
qed

lemma run_plugins_fold:
  "distinct (map slug (plugin_registry env)) \<Longrightarrow> set ps \<subseteq> set (plugin_registry env) \<Longrightarrow>
   run_plugins env ps event is_new is_regression is_sample w =
     (Return (),
      foldl (\<lambda>w p. snd (safe_execute ''post_process'' is_PluginError
                          (post_process p
                             \<lparr>pp_event = event, pp_group = ev_group event, pp_is_new = is_new,
                              pp_is_regresion = is_regression, pp_is_sample = is_sample\<rparr>)
                          (w\<lparr>scope_project := Some (project_id event)\<rparr>)))
        w ps)"
proof (induction ps arbitrary: w)
  case Nil
  show ?case by simp
next
  case (Cons p ps)
  then have "find (\<lambda>x. slug x = slug p) (plugin_registry env) = Some p"
    by (simp add: find_slug_distinct)
  then have "plugin_post_process_group env (slug p) event is_new is_regression is_sample w
      = (Return (), snd (safe_execute ''post_process'' is_PluginError
                          (post_process p
                             \<lparr>pp_event = event, pp_group = ev_group event, pp_is_new = is_new,
                              pp_is_regresion = is_regression, pp_is_sample = is_sample\<rparr>)
                          (w\<lparr>scope_project := Some (project_id event)\<rparr>)))"
    by (simp add: plugin_post_process_group_def plugins_get_def Let_def)
       (subst safe_execute_eq, simp)
  with Cons show ?case
    by (simp add: and_then_def)
qed

subsection \<open>Deduplication\<close>

text \<open>
  C1, as amended. Let a first call of \<open>post_process_group\<close> claim the event: its check
  returns false. Then a cluster is configured, the lock store was reachable, the check
  has set the key \<open>pp:{project_id}/{event_id}\<close> with the time as value and an expiry
  3600 seconds later, and the first call is one run of the stages from the world the
  check left. Let the lock store be reachable and the key be as the check left it when
  the first call ends. Then a second call for the same project id and event id, made
  before 3600 seconds have passed, finds the key present: the check returns true, one
  \<open>INFO\<close> line \<open>post_process.skipped\<close> with reason \<open>duplicate\<close> is logged, and the
  call returns with nothing else changed: no store mutation, no metric, no task, no
  signal. The world after both calls is the world after the first, with the clock moved
  and the skip line: when the first call returned normally, the side effects of the
  pipeline have occurred exactly once across the two calls. A later call is skipped in
  the same way from any world where the store is reachable and the key is as the check
  left it.
\<close>

theorem duplicate_delivery_skipped:
  assumes first: "post_process_group env event is_new is_regression is_sample
                    is_new_group_environment primary_hash w = (r1, w1)"
    and claimed: "check_event_already_post_processed env event w = (Return (Some False), wc)"
    and same: "project_id event' = project_id event \<and> event_id event' = event_id event"
    and up: "redis_up w1"
    and kept: "redis_keys w1 (dedup_key event) = redis_keys wc (dedup_key event)"
    and ttl: "t2 < now w + 3600"
  shows "lock_cluster env \<noteq> None \<and> redis_up w
     \<and> redis_keys wc (dedup_key event) = Some (str_of_nat (now w), now w + 3600)
     \<and> process_claimed env event is_new is_regression is_sample is_new_group_environment
           primary_hash wc = (r1, w1)
     \<and> check_event_already_post_processed env event' (w1\<lparr>now := t2\<rparr>)
           = (Return (Some True), w1\<lparr>now := t2\<rparr>)
     \<and> post_process_group env event' is_new' is_regression' is_sample' is_new_group_environment'
           primary_hash' (w1\<lparr>now := t2\<rparr>)
         = (Return (),
            w1\<lparr>now := t2,
                logs := logs w1 @
                  [LogEntry ''sentry'' INFO ''post_process.skipped''
                     [(''project_id'', LInt (project_id event)),
                      (''event_id'', LStr (event_id event)),
                      (''reason'', LStr ''duplicate'')]]\<rparr>)
     \<and> (\<forall>w2. redis_up w2 \<and> redis_keys w2 (dedup_key event) = redis_keys wc (dedup_key event)
               \<and> now w2 < now w + 3600 \<longrightarrow>
           post_process_group env event' is_new' is_regression' is_sample'
             is_new_group_environment' primary_hash' w2
           = (Return (),
              w2\<lparr>logs := logs w2 @
                    [LogEntry ''sentry'' INFO ''post_process.skipped''
                       [(''project_id'', LInt (project_id event)),
                        (''event_id'', LStr (event_id event)),
                        (''reason'', LStr ''duplicate'')]]\<rparr>))"
proof -
  from claimed obtain cluster_key where cfg: "lock_cluster env = Some cluster_key"
    by (cases "lock_cluster env") (auto simp: check_event_already_post_processed_def)
  from claimed cfg have set1:
    "redis_set_nx (dedup_key event) (str_of_nat (now w)) (60 * 60) w = (Return True, wc)"
    by (cases "redis_set_nx (dedup_key event) (str_of_nat (now w)) (60 * 60) w";
        cases "fst (redis_set_nx (dedup_key event) (str_of_nat (now w)) (60 * 60) w)")
       (auto simp: check_event_already_post_processed_def and_then_def)
  then have wc: "wc = w\<lparr>redis_keys := (redis_keys w)(dedup_key event \<mapsto> (str_of_nat (now w), now w + 3600))\<rparr>"
    and up1: "redis_up w"
    by (auto simp: redis_set_nx_def split: if_splits option.splits)
  then have key: "redis_keys wc (dedup_key event) = Some (str_of_nat (now w), now w + 3600)"
    by simp
  from first claimed have run: "process_claimed env event is_new is_regression is_sample
      is_new_group_environment primary_hash wc = (r1, w1)"
    by (simp add: post_process_group_def and_then_def)
  from same have k: "dedup_key event' = dedup_key event"
    by (simp add: dedup_key_def)
  have skip: "post_process_group env event' is_new' is_regression' is_sample'
             is_new_group_environment' primary_hash' w2
           = (Return (),
              w2\<lparr>logs := logs w2 @
                    [LogEntry ''sentry'' INFO ''post_process.skipped''
                       [(''project_id'', LInt (project_id event)),
                        (''event_id'', LStr (event_id event)),
                        (''reason'', LStr ''duplicate'')]]\<rparr>)
        \<and> check_event_already_post_processed env event' w2 = (Return (Some True), w2)"
    if a: "redis_up w2" "redis_keys w2 (dedup_key event) = redis_keys wc (dedup_key event)"
      "now w2 < now w + 3600" for w2
  proof -
    have set2: "redis_set_nx (dedup_key event') v 3600 w2 = (Return False, w2)" for v
      using a key by (simp add: redis_set_nx_def k)
    have chk: "check_event_already_post_processed env event' w2 = (Return (Some True), w2)"
      by (simp add: check_event_already_post_processed_def cfg set2 and_then_def)
    show ?thesis
      using same
      by (simp add: chk post_process_group_def and_then_def logger_info_def skipped_entry_def)
  qed
  have a2: "redis_up (w1\<lparr>now := t2\<rparr>)"
    "redis_keys (w1\<lparr>now := t2\<rparr>) (dedup_key event) = redis_keys wc (dedup_key event)"
    "now (w1\<lparr>now := t2\<rparr>) < now w + 3600"
    using up kept ttl by simp_all
  from skip [OF a2] have two: "post_process_group env event' is_new' is_regression' is_sample'
           is_new_group_environment' primary_hash' (w1\<lparr>now := t2\<rparr>)
         = (Return (),
            w1\<lparr>now := t2,
                logs := logs w1 @
                  [LogEntry ''sentry'' INFO ''post_process.skipped''
                     [(''project_id'', LInt (project_id event)),
                      (''event_id'', LStr (event_id event)),
                      (''reason'', LStr ''duplicate'')]]\<rparr>)"
    and chk2: "check_event_already_post_processed env event' (w1\<lparr>now := t2\<rparr>)
           = (Return (Some True), w1\<lparr>now := t2\<rparr>)"
    by simp_all
  from skip have gen: "\<forall>w2. redis_up w2 \<and> redis_keys w2 (dedup_key event) = redis_keys wc (dedup_key event)
               \<and> now w2 < now w + 3600 \<longrightarrow>
           post_process_group env event' is_new' is_regression' is_sample'
             is_new_group_environment' primary_hash' w2
           = (Return (),
              w2\<lparr>logs := logs w2 @
                    [LogEntry ''sentry'' INFO ''post_process.skipped''
                       [(''project_id'', LInt (project_id event)),
                        (''event_id'', LStr (event_id event)),
                        (''reason'', LStr ''duplicate'')]]\<rparr>)"
    by blast
  from cfg have c0: "lock_cluster env \<noteq> None" by simp
  show ?thesis
    by (intro conjI) (rule c0 up1 key run chk2 two gen)+
qed

theorem duplicate_delivery_skipped_witness:
  "post_process_group env0 event_abc True False False False None world0 = (Return (), world_first)
   \<and> check_event_already_post_processed env0 event_abc world0
      = (Return (Some False), world0\<lparr>redis_keys := [dedup_key event_abc \<mapsto> (str_of_nat 1000, 4600)]\<rparr>)
   \<and> redis_up world_first
   \<and> (1010 :: nat) < now world0 + 3600
   \<and> process_claimed env0 event_abc True False False False None
        (world0\<lparr>redis_keys := [dedup_key event_abc \<mapsto> (str_of_nat 1000, 4600)]\<rparr>)
      = (Return (), world_first)
   \<and> metrics world_first =
        [Incr ''events.unique'' [(''platform'', ''python'')],
         Incr ''events.processed'' [(''platform'', ''python'')],
         Incr ''events.processed.python'' [],
         Timing ''events.size.data'' 512 [(''platform'', ''python'')],
         Incr ''alert.sent'' [], Incr ''plugin.ran'' []]
   \<and> post_process_group env0 event_abc True False False False None (world_first\<lparr>now := 1010\<rparr>)
      = (Return (),
         world_first\<lparr>now := 1010,
                      logs := logs world_first @
                        [LogEntry ''sentry'' INFO ''post_process.skipped''
                           [(''project_id'', LInt 42), (''event_id'', LStr ''abc''),
                            (''reason'', LStr ''duplicate'')]]\<rparr>)"
proof -
  note f = first_run_scenario
  have c: "check_event_already_post_processed env0 event_abc world0 =
        (Return (Some False),
         world0\<lparr>redis_keys := [dedup_key event_abc \<mapsto> (str_of_nat 1000, 4600)]\<rparr>)"
    by (simp add: check_event_already_post_processed_def redis_set_nx_def and_then_def env0_def
        world0_def)
  have s: "project_id event_abc = project_id event_abc \<and> event_id event_abc = event_id event_abc"
    by simp
  have u: "redis_up world_first"
    by (simp add: world_first_def world_done_def)
  have k: "redis_keys world_first (dedup_key event_abc) =
           redis_keys (world0\<lparr>redis_keys := [dedup_key event_abc \<mapsto> (str_of_nat 1000, 4600)]\<rparr>)
             (dedup_key event_abc)"
    by (simp add: world_first_def)
  have t: "(1010 :: nat) < now world0 + 3600"
    by (simp add: world0_def)
  have m: "metrics world_first =
        [Incr ''events.unique'' [(''platform'', ''python'')],
         Incr ''events.processed'' [(''platform'', ''python'')],
         Incr ''events.processed.python'' [],
         Timing ''events.size.data'' 512 [(''platform'', ''python'')],
         Incr ''alert.sent'' [], Incr ''plugin.ran'' []]"
    by (simp add: world_first_def world_done_def)
  have i: "project_id event_abc = 42" "event_id event_abc = ''abc''"
    by (simp_all add: event_abc_def)
  note d = duplicate_delivery_skipped [OF f c s u k t,
      where is_new' = True and is_regression' = False and is_sample' = False
        and is_new_group_environment' = False and primary_hash' = None]
  from d have p: "process_claimed env0 event_abc True False False False None
        (world0\<lparr>redis_keys := [dedup_key event_abc \<mapsto> (str_of_nat 1000, 4600)]\<rparr>)
      = (Return (), world_first)"
    by blast
  from d have q: "post_process_group env0 event_abc True False False False None (world_first\<lparr>now := 1010\<rparr>)
      = (Return (),
         world_first\<lparr>now := 1010,
                      logs := logs world_first @
                        [LogEntry ''sentry'' INFO ''post_process.skipped''
                           [(''project_id'', LInt 42), (''event_id'', LStr ''abc''),
                            (''reason'', LStr ''duplicate'')]]\<rparr>)"
    by (simp add: i)
  show ?thesis
    by (intro conjI) (rule f c u t p m q)+
qed

text \<open>
  C1 as stated fails in three ways. With no cluster configured, the same call repeated
  ten seconds after the first runs every stage again: it increments the counters,
  schedules the hook delivery and the resource-change notifications and sends the
  completion signal a second time. With the cluster configured, a first call whose
  ownership rules raise has claimed the event, recorded the metrics and reopened the
  issue, but has scheduled no task and sent no signal; the call repeated is skipped, so
  those side effects occur not once but never. With the lock store unreachable at the
  second call, the call raises instead of logging the skip.
\<close>

theorem duplicate_without_lock_counterexample:
  "lock_cluster (env0\<lparr>lock_cluster := None\<rparr>) = None
   \<and> post_process_group (env0\<lparr>lock_cluster := None\<rparr>) event_abc True False False False None world0
       = (Return (), world_done)
   \<and> fst (post_process_group (env0\<lparr>lock_cluster := None\<rparr>) event_abc True False False False None
            (world_done\<lparr>now := 1010\<rparr>)) = Return ()
   \<and> metrics (snd (post_process_group (env0\<lparr>lock_cluster := None\<rparr>) event_abc True False False
                     False None (world_done\<lparr>now := 1010\<rparr>)))
       = metrics world_done @
         [Incr ''events.unique'' [(''platform'', ''python'')],
          Incr ''events.processed'' [(''platform'', ''python'')],
          Incr ''events.processed.python'' [],
          Timing ''events.size.data'' 512 [(''platform'', ''python'')],
          Incr ''plugin.ran'' []]
   \<and> tasks (snd (post_process_group (env0\<lparr>lock_cluster := None\<rparr>) event_abc True False False
                   False None (world_done\<lparr>now := 1010\<rparr>)))
       = tasks world_done @
         [ProcessServiceHook 1 event_done,
          ProcessResourceChange ''created'' ''Error'' (EventId ''abc'') (Some event_done),
          ProcessResourceChange ''created'' ''Group'' (GroupId 1) None]
   \<and> signals (snd (post_process_group (env0\<lparr>lock_cluster := None\<rparr>) event_abc True False False
                     False None (world_done\<lparr>now := 1010\<rparr>)))
       = signals world_done @
         [EventProcessed project42 (group1\<lparr>status := UNRESOLVED\<rparr>) event_done None]
   \<and> lock_cluster env_rules_raise = Some ''default''
   \<and> post_process_group env_rules_raise event_abc True False False False None world0
       = (Raise (OtherException ''rules''), world_failed)
   \<and> post_process_group env_rules_raise event_abc True False False False None
        (world_failed\<lparr>now := 1010\<rparr>)
       = (Return (),
          world_failed\<lparr>now := 1010,
                       logs := [LogEntry ''sentry'' INFO ''post_process.skipped''
                                  [(''project_id'', LInt 42), (''event_id'', LStr ''abc''),
                                   (''reason'', LStr ''duplicate'')]]\<rparr>)
   \<and> tasks world_failed = []
   \<and> signals world_failed = []
   \<and> assignees world_failed = Map.empty
   \<and> post_process_group env0 event_abc True False False False None
        (world_first\<lparr>now := 1010, redis_up := False\<rparr>)
       = (Raise ConnectionError, world_first\<lparr>now := 1010, redis_up := False\<rparr>)"
proof -
  have w: "world0\<lparr>redis_up := True, redis_keys := Map.empty\<rparr> = world0"
    "world_done\<lparr>redis_up := True, redis_keys := Map.empty\<rparr> = world_done"
    by (simp_all add: world0_def world_done_def)
  have a: "post_process_group (env0\<lparr>lock_cluster := None\<rparr>) event_abc True False False False None world0
       = (Return (), world_done)"
    using process_claimed_scenario [where l = None and u = True and k = Map.empty]
    by (simp add: post_process_group_def check_event_already_post_processed_def and_then_def w)
  have b: "post_process_group (env0\<lparr>lock_cluster := None\<rparr>) event_abc True False False False None
             (world_done\<lparr>now := 1010\<rparr>)
         = process_claimed (env0\<lparr>lock_cluster := None\<rparr>) event_abc True False False False None
             (world_done\<lparr>now := 1010\<rparr>)"
    by (simp add: post_process_group_def check_event_already_post_processed_def and_then_def)
  have c: "lock_cluster env_rules_raise = Some ''default''"
    by (simp add: env_rules_raise_def env0_def)
  have d: "post_process_group env_rules_raise event_abc True False False False None
        (world_failed\<lparr>now := 1010\<rparr>)
       = (Return (),
          world_failed\<lparr>now := 1010,
                       logs := [LogEntry ''sentry'' INFO ''post_process.skipped''
                                  [(''project_id'', LInt 42), (''event_id'', LStr ''abc''),
                                   (''reason'', LStr ''duplicate'')]]\<rparr>)"
    by (simp add: post_process_group_def check_event_already_post_processed_def c
        redis_set_nx_def and_then_def logger_info_def skipped_entry_def world_failed_def
        world0_def event_abc_def)
  have e: "tasks world_failed = []" "signals world_failed = []" "assignees world_failed = Map.empty"
    by (simp_all add: world_failed_def world0_def)
  have g: "post_process_group env0 event_abc True False False False None
        (world_first\<lparr>now := 1010, redis_up := False\<rparr>)
       = (Raise ConnectionError, world_first\<lparr>now := 1010, redis_up := False\<rparr>)"
    by (simp add: post_process_group_def check_event_already_post_processed_def
        redis_set_nx_def and_then_def env0_def)
  show ?thesis
    by (simp add: a b second_run_scenario c d e g failed_run_scenario)
qed

subsection \<open>Snoozes\<close>

text \<open>
  C2. \<open>process_snoozes\<close> on an issue. Without a snooze it returns false and changes
  nothing. With a snooze that is still valid it returns false and changes nothing. With a
  snooze that is no longer valid it returns true, the snooze of the issue is deleted and
  the status of the issue is \<open>UNRESOLVED\<close> whatever it was before, on the object and on
  its row; nothing else changes.
\<close>

theorem process_snoozes_cases:
  "(snoozes w (g_id grp) = None \<longrightarrow> process_snoozes env grp w = ((False, grp), w))
   \<and> (\<forall>snooze. snoozes w (g_id grp) = Some snooze \<and> snooze_is_valid env snooze grp w \<longrightarrow>
         process_snoozes env grp w = ((False, grp), w))
   \<and> (\<forall>snooze. snoozes w (g_id grp) = Some snooze \<and> \<not> snooze_is_valid env snooze grp w \<longrightarrow>
         (\<exists>w'. process_snoozes env grp w = ((True, grp\<lparr>status := UNRESOLVED\<rparr>), w')
            \<and> snoozes w' = (snoozes w)(g_id grp := None)
            \<and> (\<forall>row. groups w (g_id grp) = Some row \<longrightarrow>
                  groups w' = (groups w)(g_id grp \<mapsto> row\<lparr>status := UNRESOLVED\<rparr>))
            \<and> (groups w (g_id grp) = None \<longrightarrow> groups w' = groups w)
            \<and> w'\<lparr>snoozes := snoozes w, groups := groups w\<rparr> = w))"
  by (auto simp: process_snoozes_def group_update_status_def Let_def split: option.splits)

theorem process_snoozes_cases_witness:
  "snoozes (world0\<lparr>snoozes := Map.empty\<rparr>) (g_id group1) = None
   \<and> process_snoozes env0 group1 (world0\<lparr>snoozes := Map.empty\<rparr>) = ((False, group1), world0\<lparr>snoozes := Map.empty\<rparr>)
   \<and> snoozes (world0\<lparr>now := 500\<rparr>) (g_id group1) = Some snooze1
   \<and> snooze_is_valid env0 snooze1 group1 (world0\<lparr>now := 500\<rparr>)
   \<and> process_snoozes env0 group1 (world0\<lparr>now := 500\<rparr>) = ((False, group1), world0\<lparr>now := 500\<rparr>)
   \<and> snoozes world0 (g_id group1) = Some snooze1
   \<and> \<not> snooze_is_valid env0 snooze1 group1 world0
   \<and> status group1 = RESOLVED
   \<and> fst (process_snoozes env0 group1 world0) = (True, group1\<lparr>status := UNRESOLVED\<rparr>)
   \<and> snoozes (snd (process_snoozes env0 group1 world0)) 1 = None
   \<and> groups (snd (process_snoozes env0 group1 world0)) 1 = Some (group1\<lparr>status := UNRESOLVED\<rparr>)"
proof -
  have a1: "snoozes (world0\<lparr>snoozes := Map.empty\<rparr>) (g_id group1) = None"
    by simp
  have b1: "snoozes (world0\<lparr>now := 500\<rparr>) (g_id group1) = Some snooze1"
    by (simp add: world0_def group1_def)
  have b2: "snooze_is_valid env0 snooze1 group1 (world0\<lparr>now := 500\<rparr>)"
    by (simp add: env0_def until_valid_def snooze1_def)
  have c1: "snoozes world0 (g_id group1) = Some snooze1"
    by (simp add: world0_def group1_def)
  have c2: "\<not> snooze_is_valid env0 snooze1 group1 world0"
    by (simp add: env0_def until_valid_def snooze1_def world0_def)
  have c3: "groups world0 (g_id group1) = Some group1"
    by (simp add: world0_def group1_def)
  have g: "g_id group1 = 1" by (simp add: group1_def)
  from process_snoozes_cases [of "world0\<lparr>snoozes := Map.empty\<rparr>" group1 env0] a1
  have a: "process_snoozes env0 group1 (world0\<lparr>snoozes := Map.empty\<rparr>) = ((False, group1), world0\<lparr>snoozes := Map.empty\<rparr>)"
    by blast
  from process_snoozes_cases [of "world0\<lparr>now := 500\<rparr>" group1 env0] b1 b2
  have b: "process_snoozes env0 group1 (world0\<lparr>now := 500\<rparr>) = ((False, group1), world0\<lparr>now := 500\<rparr>)"
    by blast
  from process_snoozes_cases [of world0 group1 env0] c1 c2 c3
  obtain w' where c: "process_snoozes env0 group1 world0 = ((True, group1\<lparr>status := UNRESOLVED\<rparr>), w')"
      "snoozes w' = (snoozes world0)(g_id group1 := None)"
      "groups w' = (groups world0)(g_id group1 \<mapsto> group1\<lparr>status := UNRESOLVED\<rparr>)"
    by blast
  have s: "status group1 = RESOLVED" by (simp add: group1_def)
  show ?thesis
    using a1 a b1 b2 b c1 c2 s c by (simp add: g)
qed

subsection \<open>Service hooks\<close>

text \<open>
  C3. The allowed event types are \<open>event.created\<close>, and \<open>event.alert\<close> exactly when
  \<open>has_alert\<close>. With the service-hooks feature on, the stage schedules one delivery
  task for each hook that \<open>_get_service_hooks\<close> returns whose events meet the allowed
  ones, in order, and nothing else; with the feature off it does nothing. So a hook (of
  a list with distinct ids) gets a task iff its events meet the allowed ones: a hook
  subscribed only to \<open>event.alert\<close> iff \<open>has_alert\<close>, a hook subscribed only to
  \<open>event.created\<close> always.
\<close>

theorem service_hooks_fanout:
  "allowed_events has_alert = {''event.created''} \<union> (if has_alert then {''event.alert''} else {})
   \<and> (has_servicehooks env (ev_project event) \<longrightarrow>
        (\<forall>hooks w1. get_service_hooks (project_id event) w = (HookList hooks, w1) \<longrightarrow>
           service_hooks_stage env event has_alert w =
             (Return (),
              w1\<lparr>tasks := tasks w1 @ map (\<lambda>(i, evs). ProcessServiceHook i event)
                     (filter (\<lambda>(i, evs). set evs \<inter> allowed_events has_alert \<noteq> {}) hooks)\<rparr>)))
   \<and> (\<not> has_servicehooks env (ev_project event) \<longrightarrow>
        service_hooks_stage env event has_alert w = (Return (), w))
   \<and> (\<forall>hooks i evs. distinct (map fst hooks) \<and> (i, evs) \<in> set hooks \<longrightarrow>
        (ProcessServiceHook i event
           \<in> set (map (\<lambda>(i, evs). ProcessServiceHook i event)
                    (filter (\<lambda>(i, evs). set evs \<inter> allowed_events has_alert \<noteq> {}) hooks)))
        = (set evs \<inter> allowed_events has_alert \<noteq> {}))
   \<and> (\<forall>evs. set evs = {''event.alert''} \<longrightarrow>
        (set evs \<inter> allowed_events has_alert \<noteq> {}) = has_alert)
   \<and> (\<forall>evs. set evs = {''event.created''} \<longrightarrow> set evs \<inter> allowed_events has_alert \<noteq> {})"
proof (intro conjI allI impI)
  show "allowed_events has_alert = {''event.created''} \<union> (if has_alert then {''event.alert''} else {})"
    by (auto simp: allowed_events_def)
next
  fix hooks w1
  assume "has_servicehooks env (ev_project event)"
    and "get_service_hooks (project_id event) w = (HookList hooks, w1)"
  then show "service_hooks_stage env event has_alert w =
             (Return (),
              w1\<lparr>tasks := tasks w1 @ map (\<lambda>(i, evs). ProcessServiceHook i event)
                     (filter (\<lambda>(i, evs). set evs \<inter> allowed_events has_alert \<noteq> {}) hooks)\<rparr>)"
    by (simp add: service_hooks_stage_def dispatch_hooks_tasks Let_def)
       (simp add: allowed_events_def)
next
  assume "\<not> has_servicehooks env (ev_project event)"
  then show "service_hooks_stage env event has_alert w = (Return (), w)"
    by (simp add: service_hooks_stage_def)
next
  fix hooks :: "(nat \<times> string list) list" and i evs
  assume a: "distinct (map fst hooks) \<and> (i, evs) \<in> set hooks"
  then have "\<And>evs'. (i, evs') \<in> set hooks \<Longrightarrow> evs' = evs"
    by (metis eq_key_imp_eq_value)
  with a show "(ProcessServiceHook i event
           \<in> set (map (\<lambda>(i, evs). ProcessServiceHook i event)
                    (filter (\<lambda>(i, evs). set evs \<inter> allowed_events has_alert \<noteq> {}) hooks)))
        = (set evs \<inter> allowed_events has_alert \<noteq> {})"
    by (auto simp: image_iff)
next
  fix evs :: "string list"
  assume "set evs = {''event.alert''}"
  then show "(set evs \<inter> allowed_events has_alert \<noteq> {}) = has_alert"
    by (simp add: allowed_events_def)
next
  fix evs :: "string list"
  assume "set evs = {''event.created''}"
  then show "set evs \<inter> allowed_events has_alert \<noteq> {}"
    by (simp add: allowed_events_def)
qed

theorem service_hooks_fanout_witness:
  "has_servicehooks env0 (ev_project event_abc)
   \<and> fst (get_service_hooks (project_id event_abc) world0)
       = HookList [(1, [''event.created'']), (2, [''event.alert''])]
   \<and> tasks (snd (service_hooks_stage env0 event_abc False world0)) = [ProcessServiceHook 1 event_abc]
   \<and> tasks (snd (service_hooks_stage env0 event_abc True world0))
       = [ProcessServiceHook 1 event_abc, ProcessServiceHook 2 event_abc]
   \<and> \<not> has_servicehooks (env0\<lparr>has_servicehooks := (\<lambda>p. False)\<rparr>) (ev_project event_abc)
   \<and> service_hooks_stage (env0\<lparr>has_servicehooks := (\<lambda>p. False)\<rparr>) event_abc True world0
       = (Return (), world0)"
proof -
  have h: "has_servicehooks env0 (ev_project event_abc)"
    by (simp add: env0_def)
  have n: "\<not> has_servicehooks (env0\<lparr>has_servicehooks := (\<lambda>p. False)\<rparr>) (ev_project event_abc)"
    by simp
  have t: "tasks world0 = []" by (simp add: world0_def)
  note g = get_service_hooks_scenario
  from service_hooks_fanout [of False env0 event_abc world0] h g
  have f: "service_hooks_stage env0 event_abc False world0 =
             (Return (),
              world0\<lparr>cache_store := [''servicehooks:1:42'' \<mapsto>
                 (HookList [(1, [''event.created'']), (2, [''event.alert''])], 1060)],
                tasks := [] @ map (\<lambda>(i, evs). ProcessServiceHook i event_abc)
                     (filter (\<lambda>(i, evs). set evs \<inter> allowed_events False \<noteq> {})
                        [(1, [''event.created'']), (2, [''event.alert''])])\<rparr>)"
    by (simp add: t)
  from service_hooks_fanout [of True env0 event_abc world0] h g
  have a: "service_hooks_stage env0 event_abc True world0 =
             (Return (),
              world0\<lparr>cache_store := [''servicehooks:1:42'' \<mapsto>
                 (HookList [(1, [''event.created'']), (2, [''event.alert''])], 1060)],
                tasks := [] @ map (\<lambda>(i, evs). ProcessServiceHook i event_abc)
                     (filter (\<lambda>(i, evs). set evs \<inter> allowed_events True \<noteq> {})
                        [(1, [''event.created'']), (2, [''event.alert''])])\<rparr>)"
    by (simp add: t)
  from service_hooks_fanout [of True "env0\<lparr>has_servicehooks := (\<lambda>p. False)\<rparr>" event_abc world0] n
  have d: "service_hooks_stage (env0\<lparr>has_servicehooks := (\<lambda>p. False)\<rparr>) event_abc True world0
       = (Return (), world0)"
    by blast
  show ?thesis
    using h n d by (simp add: f a g allowed_events_def)
qed

subsection \<open>Rule callbacks\<close>

text \<open>
  C4. After the loop over the callbacks of the rule processor, \<open>has_alert\<close> is true iff
  the rule processor returned at least one callback, whatever the callbacks do, return or
  raise.
\<close>

theorem has_alert_iff_callback_returned:
  "fst (run_callbacks event cbs False w) = Return (cbs \<noteq> [])"
  by (simp add: run_callbacks_fold)

theorem has_alert_iff_callback_returned_witness:
  "fst (cb_raise event_abc [1] world0) = Raise (OtherException ''boom'')
   \<and> fst (run_callbacks event_abc [(cb_raise, [1])] False world0) = Return True
   \<and> fst (run_callbacks event_abc [(cb_ok, [2])] False world0) = Return True
   \<and> fst (run_callbacks event_abc [] False world0) = Return False"
  using has_alert_iff_callback_returned [of event_abc "[(cb_raise, [1])]" world0]
    has_alert_iff_callback_returned [of event_abc "[(cb_ok, [2])]" world0]
    has_alert_iff_callback_returned [of event_abc "[]" world0]
  by (simp add: cb_raise_def)

subsection \<open>Isolation\<close>

text \<open>
  C5. \<open>safe_execute\<close> never raises: when the function it runs raises, it logs the
  exception, at \<open>INFO\<close> for an expected error and at \<open>ERROR\<close> otherwise, and returns.
  The loop over the rule callbacks returns normally and has run every callback in order,
  each through \<open>safe_execute\<close>. The loop over the plugins of the project returns
  normally, and (slugs being distinct) has run the hook of every plugin in order, each
  through \<open>safe_execute\<close> with \<open>PluginError\<close> as the expected error. The whole
  pipeline gives the same result in the environment whose callbacks and plugin hooks are
  wrapped so that none ever raises: a raise of theirs aborts no later stage.
\<close>

theorem callbacks_and_plugins_isolated:
  "fst (safe_execute name expected func w) = Return ()
   \<and> (\<forall>e w'. func w = (Raise e, w') \<longrightarrow>
         safe_execute name expected func w =
           (Return (),
            w'\<lparr>logs := logs w' @
                  [if expected e
                   then LogEntry ''sentry.safe'' INFO (name @ ''.process_error_ignored'') [(''exception'', LExn e)]
                   else LogEntry ''sentry.safe'' ERROR (name @ ''.process_error'') [(''exception'', LExn e)]]\<rparr>))
   \<and> run_callbacks event cbs has_alert w =
       (Return (has_alert \<or> cbs \<noteq> []),
        foldl (\<lambda>w (cb, futs). snd (safe_execute ''callback'' no_expected_errors (cb event futs) w)) w cbs)
   \<and> fst (run_plugins env (plugins_for_project env project) event is_new is_regression is_sample w)
       = Return ()
   \<and> (distinct (map slug (plugin_registry env)) \<longrightarrow>
        run_plugins env (plugins_for_project env project) event is_new is_regression is_sample w =
          (Return (),
           foldl (\<lambda>w p. snd (safe_execute ''post_process'' is_PluginError
                               (post_process p
                                  \<lparr>pp_event = event, pp_group = ev_group event, pp_is_new = is_new,
                                   pp_is_regresion = is_regression, pp_is_sample = is_sample\<rparr>)
                               (w\<lparr>scope_project := Some (project_id event)\<rparr>)))
             w (plugins_for_project env project)))
   \<and> is_PluginError e = (\<exists>msg. e = PluginError msg)
   \<and> post_process_group (isolated env) event is_new is_regression is_sample is_new_group_environment
         primary_hash w
       = post_process_group env event is_new is_regression is_sample is_new_group_environment
           primary_hash w"
proof -
  have sub: "set (plugins_for_project env project) \<subseteq> set (plugin_registry env)"
    by (auto simp: plugins_for_project_def)
  have 1: "fst (safe_execute name expected func w) = Return ()"
    by (subst safe_execute_eq) simp
  have 2: "\<forall>e w'. func w = (Raise e, w') \<longrightarrow>
         safe_execute name expected func w =
           (Return (),
            w'\<lparr>logs := logs w' @
                  [if expected e
                   then LogEntry ''sentry.safe'' INFO (name @ ''.process_error_ignored'') [(''exception'', LExn e)]
                   else LogEntry ''sentry.safe'' ERROR (name @ ''.process_error'') [(''exception'', LExn e)]]\<rparr>)"
    by (simp add: safe_execute_def)
  have 6: "is_PluginError e = (\<exists>msg. e = PluginError msg)"
    by (cases e) simp_all
  have 7: "post_process_group (isolated env) event is_new is_regression is_sample is_new_group_environment
         primary_hash w
       = post_process_group env event is_new is_regression is_sample is_new_group_environment
           primary_hash w"
    by (simp add: post_process_group_def other_stages_isolated process_claimed_isolated_fun
        cong: if_cong)
  show ?thesis
    using 1 2 run_callbacks_fold [of event cbs has_alert w]
      run_plugins_returns [OF sub, of event is_new is_regression is_sample w]
      run_plugins_fold [OF _ sub, of event is_new is_regression is_sample w] 6 7
    by blast
qed

theorem callbacks_and_plugins_isolated_witness:
  "fst (cb_raise event_done [1] world0) = Raise (OtherException ''boom'')
   \<and> fst (post_process plugin_bad
            \<lparr>pp_event = event_done, pp_group = ev_group event_done, pp_is_new = True,
             pp_is_regresion = False, pp_is_sample = False\<rparr> world0) = Raise (PluginError ''misconfigured'')
   \<and> plugins_for_project env0 project42 = [plugin_bad, plugin_worse, plugin_ok]
   \<and> distinct (map slug (plugin_registry env0))
   \<and> fst (run_callbacks event_done [(cb_raise, [1]), (cb_ok, [2])] False world0) = Return True
   \<and> metrics (snd (run_callbacks event_done [(cb_raise, [1]), (cb_ok, [2])] False world0))
       = [Incr ''alert.sent'' []]
   \<and> fst (run_plugins env0 (plugins_for_project env0 project42) event_done True False False world0)
       = Return ()
   \<and> metrics (snd (run_plugins env0 (plugins_for_project env0 project42) event_done True False False world0))
       = [Incr ''plugin.ran'' []]
   \<and> post_process_group (isolated env0) event_abc True False False False None world0
       = (Return (), world_first)
   \<and> signals world_first = [EventProcessed project42 (group1\<lparr>status := UNRESOLVED\<rparr>) event_done None]
   \<and> tasks world_first =
        [ProcessServiceHook 1 event_done, ProcessServiceHook 2 event_done,
         ProcessResourceChange ''created'' ''Error'' (EventId ''abc'') (Some event_done),
         ProcessResourceChange ''created'' ''Group'' (GroupId 1) None]
   \<and> logs world_first =
        [LogEntry ''sentry.safe'' ERROR ''callback.process_error''
           [(''exception'', LExn (OtherException ''boom''))],
         LogEntry ''sentry.safe'' INFO ''post_process.process_error_ignored''
           [(''exception'', LExn (PluginError ''misconfigured''))],
         LogEntry ''sentry.safe'' ERROR ''post_process.process_error''
           [(''exception'', LExn (OtherException ''crash''))]]"
proof -
  have d: "distinct (map slug (plugin_registry env0))"
    by (simp add: env0_def plugin_bad_def plugin_worse_def plugin_ok_def)
  have p: "plugins_for_project env0 project42 = [plugin_bad, plugin_worse, plugin_ok]"
    by (simp add: plugins_for_project_def env0_def plugin_bad_def plugin_worse_def plugin_ok_def)
  have m: "metrics world0 = []" by (simp add: world0_def)
  note t = callbacks_and_plugins_isolated [where name = "''callback''"
      and expected = no_expected_errors and func = "cb_raise event_done [1]" and w = world0
      and event = event_done and cbs = "[(cb_raise, [1]), (cb_ok, [2])]" and has_alert = False
      and env = env0 and project = project42 and is_new = True and is_regression = False
      and is_sample = False and e = "PluginError ''misconfigured''"
      and is_new_group_environment = False and primary_hash = None]
  from t have c: "run_callbacks event_done [(cb_raise, [1]), (cb_ok, [2])] False world0 =
       (Return True,
        foldl (\<lambda>w (cb, futs). snd (safe_execute ''callback'' no_expected_errors (cb event_done futs) w))
          world0 [(cb_raise, [1]), (cb_ok, [2])])"
    by simp
  from t d have r: "run_plugins env0 (plugins_for_project env0 project42) event_done True False False world0 =
          (Return (),
           foldl (\<lambda>w p. snd (safe_execute ''post_process'' is_PluginError
                               (post_process p
                                  \<lparr>pp_event = event_done, pp_group = ev_group event_done, pp_is_new = True,
                                   pp_is_regresion = False, pp_is_sample = False\<rparr>)
                               (w\<lparr>scope_project := Some (project_id event_done)\<rparr>)))
             world0 (plugins_for_project env0 project42))"
    by blast
  from callbacks_and_plugins_isolated [where name = "''callback''"
      and expected = no_expected_errors and func = "cb_raise event_done [1]" and w = world0
      and event = event_abc and cbs = "[]" and has_alert = False
      and env = env0 and project = project42 and is_new = True and is_regression = False
      and is_sample = False and e = "PluginError ''misconfigured''"
      and is_new_group_environment = False and primary_hash = None]
  have i: "post_process_group (isolated env0) event_abc True False False False None world0
       = post_process_group env0 event_abc True False False False None world0"
    by blast
  have c': "metrics (snd (run_callbacks event_done [(cb_raise, [1]), (cb_ok, [2])] False world0))
       = [Incr ''alert.sent'' []]"
    by (simp add: safe_execute_def cb_raise_def cb_ok_def metrics_incr_def m and_then_def
        no_expected_errors_def)
  have r': "metrics (snd (run_plugins env0 (plugins_for_project env0 project42) event_done True False False world0))
       = [Incr ''plugin.ran'' []]"
    by (simp add: r) (simp add: p safe_execute_def plugin_bad_def plugin_worse_def plugin_ok_def
        metrics_incr_def m)
  have f1: "fst (cb_raise event_done [1] world0) = Raise (OtherException ''boom'')"
    by (simp add: cb_raise_def)
  have f2: "fst (post_process plugin_bad
            \<lparr>pp_event = event_done, pp_group = ev_group event_done, pp_is_new = True,
             pp_is_regresion = False, pp_is_sample = False\<rparr> world0) = Raise (PluginError ''misconfigured'')"
    by (simp add: plugin_bad_def)
  have f5: "fst (run_callbacks event_done [(cb_raise, [1]), (cb_ok, [2])] False world0) = Return True"
    by (simp only: c fst_conv)
  have f7: "fst (run_plugins env0 (plugins_for_project env0 project42) event_done True False False world0)
       = Return ()"
    by (simp only: r fst_conv)
  have f9: "post_process_group (isolated env0) event_abc True False False False None world0
       = (Return (), world_first)"
    by (simp only: i first_run_scenario)
  have f10: "signals world_first = [EventProcessed project42 (group1\<lparr>status := UNRESOLVED\<rparr>) event_done None]"
    by (simp add: world_first_def world_done_def)
  have f11: "tasks world_first =
        [ProcessServiceHook 1 event_done, ProcessServiceHook 2 event_done,
         ProcessResourceChange ''created'' ''Error'' (EventId ''abc'') (Some event_done),
         ProcessResourceChange ''created'' ''Group'' (GroupId 1) None]"
    by (simp add: world_first_def world_done_def)
  have f12: "logs world_first =
        [LogEntry ''sentry.safe'' ERROR ''callback.process_error''
           [(''exception'', LExn (OtherException ''boom''))],
         LogEntry ''sentry.safe'' INFO ''post_process.process_error_ignored''
           [(''exception'', LExn (PluginError ''misconfigured''))],
         LogEntry ''sentry.safe'' ERROR ''post_process.process_error''
           [(''exception'', LExn (OtherException ''crash''))]]"
    by (simp add: world_first_def world_done_def)
  show ?thesis
    by (intro conjI) (rule f1 f2 p d f5 c' f7 r' f9 f10 f11 f12)+
qed

subsection \<open>Failure of the lock store\<close>

text \<open>
  C6, as amended. With a cluster configured and the lock store unreachable, the error of
  the client propagates out of \<open>check_event_already_post_processed\<close> and out of
  \<open>post_process_group\<close>, with the world unchanged: nothing is logged and no stage runs.
  With no cluster configured the check returns \<open>None\<close> without touching the lock
  store, and the call runs every stage.
\<close>

theorem dedup_guard_failure_modes:
  "(lock_cluster env \<noteq> None \<and> \<not> redis_up w \<longrightarrow>
      check_event_already_post_processed env event w = (Raise ConnectionError, w)
      \<and> post_process_group env event is_new is_regression is_sample is_new_group_environment primary_hash w
          = (Raise ConnectionError, w))
   \<and> (lock_cluster env = None \<longrightarrow>
      check_event_already_post_processed env event w = (Return None, w)
      \<and> post_process_group env event is_new is_regression is_sample is_new_group_environment primary_hash w
          = process_claimed env event is_new is_regression is_sample is_new_group_environment primary_hash w)"
  by (auto simp: check_event_already_post_processed_def post_process_group_def redis_set_nx_def
      and_then_def)

theorem dedup_guard_failure_modes_witness:
  "lock_cluster env0 \<noteq> None
   \<and> \<not> redis_up (world0\<lparr>redis_up := False\<rparr>)
   \<and> post_process_group env0 event_abc True False False False None (world0\<lparr>redis_up := False\<rparr>)
        = (Raise ConnectionError, world0\<lparr>redis_up := False\<rparr>)
   \<and> lock_cluster (env0\<lparr>lock_cluster := None\<rparr>) = None
   \<and> check_event_already_post_processed (env0\<lparr>lock_cluster := None\<rparr>) event_abc (world0\<lparr>redis_up := False\<rparr>)
        = (Return None, world0\<lparr>redis_up := False\<rparr>)
   \<and> post_process_group (env0\<lparr>lock_cluster := None\<rparr>) event_abc True False False False None
        (world0\<lparr>redis_up := False\<rparr>)
        = (Return (), world_done\<lparr>redis_up := False\<rparr>)"
proof -
  have c: "lock_cluster env0 \<noteq> None" by (simp add: env0_def)
  have r: "\<not> redis_up (world0\<lparr>redis_up := False\<rparr>)" by simp
  have n: "lock_cluster (env0\<lparr>lock_cluster := None\<rparr>) = None" by simp
  have w: "world0\<lparr>redis_up := False, redis_keys := Map.empty\<rparr> = world0\<lparr>redis_up := False\<rparr>"
    "world_done\<lparr>redis_up := False, redis_keys := Map.empty\<rparr> = world_done\<lparr>redis_up := False\<rparr>"
    by (simp_all add: world0_def world_done_def)
  have p: "process_claimed (env0\<lparr>lock_cluster := None\<rparr>) event_abc True False False False None
        (world0\<lparr>redis_up := False\<rparr>) = (Return (), world_done\<lparr>redis_up := False\<rparr>)"
    using process_claimed_scenario [where l = None and u = False and k = Map.empty]
    by (simp add: w)
  from dedup_guard_failure_modes [of env0 "world0\<lparr>redis_up := False\<rparr>" event_abc True False False False None] c r
  have a: "post_process_group env0 event_abc True False False False None (world0\<lparr>redis_up := False\<rparr>)
        = (Raise ConnectionError, world0\<lparr>redis_up := False\<rparr>)"
    by blast
  from dedup_guard_failure_modes [of "env0\<lparr>lock_cluster := None\<rparr>" "world0\<lparr>redis_up := False\<rparr>"
      event_abc True False False False None] n
  have b: "check_event_already_post_processed (env0\<lparr>lock_cluster := None\<rparr>) event_abc (world0\<lparr>redis_up := False\<rparr>)
        = (Return None, world0\<lparr>redis_up := False\<rparr>)"
    "post_process_group (env0\<lparr>lock_cluster := None\<rparr>) event_abc True False False False None
        (world0\<lparr>redis_up := False\<rparr>)
      = process_claimed (env0\<lparr>lock_cluster := None\<rparr>) event_abc True False False False None
        (world0\<lparr>redis_up := False\<rparr>)"
    by blast+
  show ?thesis using c r n a b by (simp add: p)
qed

text \<open>
  C6 as stated fails: with the cluster \<open>default\<close> configured and the lock store
  unreachable, the check and the pipeline raise \<open>ConnectionError\<close>; the world is
  unchanged, its log is empty.
\<close>

theorem dedup_fail_open_counterexample:
  "lock_cluster env0 = Some ''default''
   \<and> \<not> redis_up (world0\<lparr>redis_up := False\<rparr>)
   \<and> check_event_already_post_processed env0 event_abc (world0\<lparr>redis_up := False\<rparr>)
        = (Raise ConnectionError, world0\<lparr>redis_up := False\<rparr>)
   \<and> post_process_group env0 event_abc True False False False None (world0\<lparr>redis_up := False\<rparr>)
        = (Raise ConnectionError, world0\<lparr>redis_up := False\<rparr>)
   \<and> logs (world0\<lparr>redis_up := False\<rparr>) = []"
  by (simp add: check_event_already_post_processed_def post_process_group_def redis_set_nx_def
      and_then_def env0_def world0_def)

subsection \<open>Metrics\<close>

text \<open>
  C7, as amended. For an event whose group has a non-empty platform, \<open>_capture_stats\<close>
  appends to the metrics: the counter \<open>events.unique\<close> exactly when \<open>is_new\<close>, then
  the counter \<open>events.processed\<close>, the counter \<open>events.processed.<platform>\<close> and the
  timing \<open>events.size.data\<close> of the event's size, tagged with the platform up to its
  first \<open>-\<close> and then up to its first \<open>_\<close>. For a group without a platform (none, or
  the empty string) it records nothing.
\<close>

theorem capture_stats_records:
  "(platform (ev_group event) = Some p \<and> p \<noteq> [] \<longrightarrow>
      capture_stats event is_new w =
        w\<lparr>metrics := metrics w
             @ (if is_new
                then [Incr ''events.unique''
                        [(''platform'', takeWhile (\<lambda>c. c \<noteq> CHR ''_'') (takeWhile (\<lambda>c. c \<noteq> CHR ''-'') p))]]
                else [])
             @ [Incr ''events.processed''
                  [(''platform'', takeWhile (\<lambda>c. c \<noteq> CHR ''_'') (takeWhile (\<lambda>c. c \<noteq> CHR ''-'') p))],
                Incr (''events.processed.'' @ takeWhile (\<lambda>c. c \<noteq> CHR ''_'') (takeWhile (\<lambda>c. c \<noteq> CHR ''-'') p)) [],
                Timing ''events.size.data'' (event_size event)
                  [(''platform'', takeWhile (\<lambda>c. c \<noteq> CHR ''_'') (takeWhile (\<lambda>c. c \<noteq> CHR ''-'') p))]]\<rparr>)
   \<and> (platform (ev_group event) = None \<or> platform (ev_group event) = Some [] \<longrightarrow>
        capture_stats event is_new w = w)"
  by (auto simp: capture_stats_def split1_first metrics_incr_def metrics_timing_def Let_def)

theorem capture_stats_records_witness:
  "platform (ev_group event_abc) = Some ''python_django-rest''
   \<and> metrics (capture_stats event_abc True world0) =
       [Incr ''events.unique'' [(''platform'', ''python'')],
        Incr ''events.processed'' [(''platform'', ''python'')],
        Incr ''events.processed.python'' [],
        Timing ''events.size.data'' 512 [(''platform'', ''python'')]]
   \<and> metrics (capture_stats event_abc False world0) =
       [Incr ''events.processed'' [(''platform'', ''python'')],
        Incr ''events.processed.python'' [],
        Timing ''events.size.data'' 512 [(''platform'', ''python'')]]
   \<and> platform (ev_group (event_abc\<lparr>ev_group := group1\<lparr>platform := None\<rparr>\<rparr>)) = None
   \<and> capture_stats (event_abc\<lparr>ev_group := group1\<lparr>platform := None\<rparr>\<rparr>) True world0 = world0"
proof -
  have h: "platform (ev_group event_abc) = Some ''python_django-rest'' \<and> ''python_django-rest'' \<noteq> []"
    by (simp add: event_abc_def group1_def)
  have n: "platform (ev_group (event_abc\<lparr>ev_group := group1\<lparr>platform := None\<rparr>\<rparr>)) = None"
    by simp
  have m: "metrics world0 = []" "event_size event_abc = 512"
    by (simp_all add: world0_def event_abc_def)
  from capture_stats_records [of event_abc "''python_django-rest''" True world0] h
  have t: "capture_stats event_abc True world0 = world0\<lparr>metrics := metrics world0
             @ [Incr ''events.unique'' [(''platform'', ''python'')]]
             @ [Incr ''events.processed'' [(''platform'', ''python'')],
                Incr ''events.processed.python'' [],
                Timing ''events.size.data'' (event_size event_abc) [(''platform'', ''python'')]]\<rparr>"
    by simp
  from capture_stats_records [of event_abc "''python_django-rest''" False world0] h
  have f: "capture_stats event_abc False world0 = world0\<lparr>metrics := metrics world0
             @ [Incr ''events.processed'' [(''platform'', ''python'')],
                Incr ''events.processed.python'' [],
                Timing ''events.size.data'' (event_size event_abc) [(''platform'', ''python'')]]\<rparr>"
    by simp
  from capture_stats_records [of "event_abc\<lparr>ev_group := group1\<lparr>platform := None\<rparr>\<rparr>" "[]" True world0] n
  have e: "capture_stats (event_abc\<lparr>ev_group := group1\<lparr>platform := None\<rparr>\<rparr>) True world0 = world0"
    by blast
  show ?thesis using h n e by (simp add: t f m)
qed

text \<open>
  C7 as stated fails: for a new event whose group has no platform, or the empty one, no
  counter is incremented and no timing is recorded.
\<close>

theorem capture_stats_always_counterexample:
  "platform (ev_group (event_abc\<lparr>ev_group := group1\<lparr>platform := None\<rparr>\<rparr>)) = None
   \<and> metrics (capture_stats (event_abc\<lparr>ev_group := group1\<lparr>platform := None\<rparr>\<rparr>) True world0) = []
   \<and> metrics (capture_stats (event_abc\<lparr>ev_group := group1\<lparr>platform := Some ''''\<rparr>\<rparr>) True world0) = []"
  by (simp add: capture_stats_def world0_def)

subsection \<open>Sampling\<close>

text \<open>
  C8. With sampling on, \<open>_should_send_error_created_hooks\<close> makes one draw and returns
  whether the draw is strictly below the sample rate; the world changes in the position
  of the random generator only, so nothing is written to the cache, and the decision is
  the same whatever the cache holds. With sample rate 0 (a draw is never negative) the
  decision is false, and the resource-change stage schedules no \<open>Error\<close> notification
  (only the \<open>Group\<close> one, when \<open>is_new\<close>) and leaves the cache as it is.
\<close>

theorem sampling_decision_uncached:
  assumes "use_sampling env"
  shows "should_send_error_created_hooks env project w
           = (Return (rand env (rng_pos w) < sample_rate env), w\<lparr>rng_pos := rng_pos w + 1\<rparr>)
     \<and> fst (should_send_error_created_hooks env project (w\<lparr>cache_store := c\<rparr>))
           = fst (should_send_error_created_hooks env project w)
     \<and> cache_store (snd (should_send_error_created_hooks env project w)) = cache_store w
     \<and> (sample_rate env = 0 \<and> 0 \<le> rand env (rng_pos w) \<longrightarrow>
          fst (should_send_error_created_hooks env project w) = Return False
          \<and> fst (resource_change_stage env event is_new w) = Return ()
          \<and> tasks (snd (resource_change_stage env event is_new w))
              = tasks w @ (if is_new
                           then [ProcessResourceChange ''created'' ''Group'' (GroupId (group_id event)) None]
                           else [])
          \<and> cache_store (snd (resource_change_stage env event is_new w)) = cache_store w)"
  using assms
  by (auto simp: should_send_error_created_hooks_def resource_change_stage_def and_then_def
      delay_def Let_def)

theorem sampling_decision_uncached_witness:
  "use_sampling (env0\<lparr>use_sampling := True\<rparr>)
   \<and> sample_rate (env0\<lparr>use_sampling := True\<rparr>) = 0
   \<and> rand (env0\<lparr>use_sampling := True\<rparr>) (rng_pos world0) = 1 / 2
   \<and> should_send_error_created_hooks (env0\<lparr>use_sampling := True\<rparr>) project42 world0
        = (Return False, world0\<lparr>rng_pos := 1\<rparr>)
   \<and> tasks (snd (resource_change_stage (env0\<lparr>use_sampling := True\<rparr>) event_abc True world0))
        = [ProcessResourceChange ''created'' ''Group'' (GroupId 1) None]
   \<and> cache_store (snd (resource_change_stage (env0\<lparr>use_sampling := True\<rparr>) event_abc True world0))
        = Map.empty
   \<and> should_send_error_created_hooks (env0\<lparr>use_sampling := True, sample_rate := 3 / 4\<rparr>) project42 world0
        = (Return True, world0\<lparr>rng_pos := 1\<rparr>)"
proof -
  have u: "use_sampling (env0\<lparr>use_sampling := True\<rparr>)"
    "use_sampling (env0\<lparr>use_sampling := True, sample_rate := 3 / 4\<rparr>)"
    by simp_all
  have z: "sample_rate env0 = 0" "rand env0 n = 1 / 2" for n
    by (simp_all add: env0_def)
  have w: "rng_pos world0 = 0" "tasks world0 = []" "cache_store world0 = Map.empty"
    "group_id event_abc = 1"
    by (simp_all add: world0_def event_abc_def)
  from sampling_decision_uncached [OF u(1), of project42 world0 Map.empty event_abc True]
  have a: "should_send_error_created_hooks (env0\<lparr>use_sampling := True\<rparr>) project42 world0
        = (Return False, world0\<lparr>rng_pos := 1\<rparr>)"
    "tasks (snd (resource_change_stage (env0\<lparr>use_sampling := True\<rparr>) event_abc True world0))
        = [ProcessResourceChange ''created'' ''Group'' (GroupId 1) None]"
    "cache_store (snd (resource_change_stage (env0\<lparr>use_sampling := True\<rparr>) event_abc True world0))
        = Map.empty"
    by (simp_all add: z w)
  from sampling_decision_uncached [OF u(2), of project42 world0 Map.empty event_abc True]
  have b: "should_send_error_created_hooks (env0\<lparr>use_sampling := True, sample_rate := 3 / 4\<rparr>) project42 world0
        = (Return True, world0\<lparr>rng_pos := 1\<rparr>)"
    by (simp add: z w)
  show ?thesis using u z a b by simp
qed

subsection \<open>Ownership\<close>

text \<open>
  C9. \<open>handle_owner_assignment\<close> on an issue that has an assignee returns with the
  world unchanged, whatever the ownership rules would answer (or raise). Whenever the
  stage changes the assignees, the issue had none, the ownership rules returned an owner,
  and that owner is assigned to this issue.
\<close>

theorem handle_owner_assignment_monotone:
  "(assignees w (g_id grp) \<noteq> None \<longrightarrow>
      handle_owner_assignment env project grp event w = (Return (), w))
   \<and> (\<forall>r w'. handle_owner_assignment env project grp event w = (r, w') \<and> assignees w' \<noteq> assignees w \<longrightarrow>
         assignees w (g_id grp) = None
         \<and> (\<exists>ownr. get_autoassign_owner env (g_project_id grp) (data event) w = Return (Some ownr)
               \<and> r = Return ()
               \<and> w' = w\<lparr>assignees := (assignees w)(g_id grp \<mapsto> ownr)\<rparr>))"
  by (auto simp: handle_owner_assignment_def assign_def split: outcome.splits option.splits if_splits)

theorem handle_owner_assignment_monotone_witness:
  "assignees (world0\<lparr>assignees := [1 \<mapsto> Team 9]\<rparr>) (g_id group1) = Some (Team 9)
   \<and> get_autoassign_owner env0 (g_project_id group1) (data event_abc) (world0\<lparr>assignees := [1 \<mapsto> Team 9]\<rparr>)
       = Return (Some (User 3))
   \<and> handle_owner_assignment env0 project42 group1 event_abc (world0\<lparr>assignees := [1 \<mapsto> Team 9]\<rparr>)
       = (Return (), world0\<lparr>assignees := [1 \<mapsto> Team 9]\<rparr>)
   \<and> handle_owner_assignment
        (env0\<lparr>get_autoassign_owner := (\<lambda>pid d w. Raise (OtherException ''rules''))\<rparr>)
        project42 group1 event_abc (world0\<lparr>assignees := [1 \<mapsto> Team 9]\<rparr>)
       = (Return (), world0\<lparr>assignees := [1 \<mapsto> Team 9]\<rparr>)
   \<and> assignees world0 (g_id group1) = None
   \<and> handle_owner_assignment env0 project42 group1 event_abc world0
       = (Return (), world0\<lparr>assignees := [1 \<mapsto> User 3]\<rparr>)"
proof -
  have g: "g_id group1 = 1" by (simp add: group1_def)
  have a: "assignees (world0\<lparr>assignees := [1 \<mapsto> Team 9]\<rparr>) (g_id group1) \<noteq> None"
    by (simp add: g)
  have o: "get_autoassign_owner env0 (g_project_id group1) (data event_abc) (world0\<lparr>assignees := [1 \<mapsto> Team 9]\<rparr>)
       = Return (Some (User 3))"
    by (simp add: env0_def)
  have n: "assignees world0 (g_id group1) = None" by (simp add: world0_def)
  have r: "handle_owner_assignment env0 project42 group1 event_abc world0
       = (Return (), world0\<lparr>assignees := [1 \<mapsto> User 3]\<rparr>)"
    by (simp add: handle_owner_assignment_def n env0_def assign_def g) (simp add: world0_def)
  have ne: "assignees (world0\<lparr>assignees := [1 \<mapsto> User 3]\<rparr>) \<noteq> assignees world0"
    by (simp add: world0_def)
  from handle_owner_assignment_monotone [of "world0\<lparr>assignees := [1 \<mapsto> Team 9]\<rparr>" group1 env0 project42 event_abc] a
  have k1: "handle_owner_assignment env0 project42 group1 event_abc (world0\<lparr>assignees := [1 \<mapsto> Team 9]\<rparr>)
       = (Return (), world0\<lparr>assignees := [1 \<mapsto> Team 9]\<rparr>)"
    by blast
  from handle_owner_assignment_monotone [of "world0\<lparr>assignees := [1 \<mapsto> Team 9]\<rparr>" group1
      "env0\<lparr>get_autoassign_owner := (\<lambda>pid d w. Raise (OtherException ''rules''))\<rparr>" project42 event_abc] a
  have k2: "handle_owner_assignment
        (env0\<lparr>get_autoassign_owner := (\<lambda>pid d w. Raise (OtherException ''rules''))\<rparr>)
        project42 group1 event_abc (world0\<lparr>assignees := [1 \<mapsto> Team 9]\<rparr>)
       = (Return (), world0\<lparr>assignees := [1 \<mapsto> Team 9]\<rparr>)"
    by blast
  from handle_owner_assignment_monotone [of world0 group1 env0 project42 event_abc] r ne
  have k3: "assignees world0 (g_id group1) = None" by blast
  show ?thesis using a o k1 k2 k3 r by (simp add: g)
qed

subsection \<open>The plugin entry point\<close>

text \<open>
  C10. \<open>plugin_post_process_group\<close> looks the plugin up before, and outside,
  \<open>safe_execute\<close>: for a slug that no registered plugin has, the \<open>KeyError\<close> of the
  lookup is raised out of the entry point, after the scope tag is set and with nothing
  logged. For a registered slug the entry point never raises.
\<close>

theorem plugin_lookup_outside_wrapper:
  "(plugin_slug \<notin> slug ` set (plugin_registry env) \<longrightarrow>
      plugin_post_process_group env plugin_slug event is_new is_regresion is_sample w
        = (Raise (KeyError plugin_slug), w\<lparr>scope_project := Some (project_id event)\<rparr>))
   \<and> (plugin_slug \<in> slug ` set (plugin_registry env) \<longrightarrow>
      fst (plugin_post_process_group env plugin_slug event is_new is_regresion is_sample w) = Return ())"
proof (intro conjI impI)
  assume "plugin_slug \<notin> slug ` set (plugin_registry env)"
  then have "find (\<lambda>p. slug p = plugin_slug) (plugin_registry env) = None"
    by (auto simp: find_None_iff)
  then show "plugin_post_process_group env plugin_slug event is_new is_regresion is_sample w
        = (Raise (KeyError plugin_slug), w\<lparr>scope_project := Some (project_id event)\<rparr>)"
    by (simp add: plugin_post_process_group_def plugins_get_def)
next
  assume "plugin_slug \<in> slug ` set (plugin_registry env)"
  then show "fst (plugin_post_process_group env plugin_slug event is_new is_regresion is_sample w) = Return ()"
    by (rule plugin_post_process_group_registered)
qed

theorem plugin_lookup_outside_wrapper_witness:
  "''missing'' \<notin> slug ` set (plugin_registry env0)
   \<and> plugin_post_process_group env0 ''missing'' event_abc True False False world0
        = (Raise (KeyError ''missing''), world0\<lparr>scope_project := Some 42\<rparr>)
   \<and> logs (snd (plugin_post_process_group env0 ''missing'' event_abc True False False world0)) = logs world0
   \<and> ''worse'' \<in> slug ` set (plugin_registry env0)
   \<and> fst (plugin_post_process_group env0 ''worse'' event_abc True False False world0) = Return ()"
proof -
  have m: "''missing'' \<notin> slug ` set (plugin_registry env0)"
    by (simp add: registry0_slugs)
  have k: "''worse'' \<in> slug ` set (plugin_registry env0)"
    by (simp add: registry0_slugs)
  have p: "project_id event_abc = 42" by (simp add: event_abc_def)
  from plugin_lookup_outside_wrapper [of "''missing''" env0 event_abc True False False world0] m
  have a: "plugin_post_process_group env0 ''missing'' event_abc True False False world0
        = (Raise (KeyError ''missing''), world0\<lparr>scope_project := Some 42\<rparr>)"
    by (simp add: p)
  from plugin_lookup_outside_wrapper [of "''worse''" env0 event_abc True False False world0] k
  have b: "fst (plugin_post_process_group env0 ''worse'' event_abc True False False world0) = Return ()"
    by blast
  show ?thesis using m k b by (simp add: a)
qed

end
